theory Spec2Isabelle
  imports Complex_Main "HOL-Library.Char_ord" "HOL-Library.List_Lexorder"
    "HOL-Library.Product_Lexorder" "HOL-Library.Multiset"
begin

section \<open>Exceptions\<close>

text \<open>
  The exceptions of \<^verbatim>\<open>totes.py\<close>. \<^verbatim>\<open>NotAComment\<close> carries its message,
  \<^verbatim>\<open>SubmissionNotFound\<close> the identifier it was raised with. The three PRAW
  classes are the ones named in \<^verbatim>\<open>RECOVERABLE_EXC\<close>; \<^verbatim>\<open>NameError\<close> and
  \<^verbatim>\<open>IntegrityError\<close> are raised by the interpreter and by the store.
\<close>

datatype exc =
    NotAComment string
  | SubmissionNotFound string
  | APIException
  | ClientException
  | PRAWException
  | NameError string
  | IntegrityError
  | RequestException
  | Exception string

fun is_PRAWException :: "exc \<Rightarrow> bool" where
  "is_PRAWException APIException = True"
| "is_PRAWException ClientException = True"
| "is_PRAWException PRAWException = True"
| "is_PRAWException _ = False"

fun RECOVERABLE_EXC :: "exc \<Rightarrow> bool" where
  "RECOVERABLE_EXC (NotAComment _) = True"
| "RECOVERABLE_EXC (SubmissionNotFound _) = True"
| "RECOVERABLE_EXC APIException = True"
| "RECOVERABLE_EXC ClientException = True"
| "RECOVERABLE_EXC PRAWException = True"
| "RECOVERABLE_EXC _ = False"

section \<open>Identity resolution: \<^verbatim>\<open>PATH_REGEX\<close> and \<^verbatim>\<open>Source._parse_path\<close>\<close>

text \<open>
  \<^verbatim>\<open>PATH_REGEX = ^/r/([^/]+)/comments/([a-z0-9]{6,8})(/[^/]+/([a-z0-9]{6,8}))?\<close>
  is applied with \<^verbatim>\<open>match\<close>, so it is anchored at the start only. Each piece of the
  pattern is one function returning the text it consumed and the rest. The greedy
  quantifiers never need to give characters back: \<^verbatim>\<open>[^/]+\<close> is always followed by
  a literal slash, and after \<^verbatim>\<open>[a-z0-9]{6,8}\<close> the pattern either ends or goes on
  with a slash.
\<close>

definition not_slash :: "char \<Rightarrow> bool" where
  "not_slash c = (c \<noteq> CHR ''/'')"

definition alnum :: "char \<Rightarrow> bool" where
  "alnum c = (c \<in> set ''abcdefghijklmnopqrstuvwxyz0123456789'')"

fun literal :: "string \<Rightarrow> string \<Rightarrow> string option" where
  "literal [] s = Some s"
| "literal (p # ps) [] = None"
| "literal (p # ps) (c # cs) = (if p = c then literal ps cs else None)"

definition segment :: "string \<Rightarrow> (string \<times> string) option" where
  "segment s =
     (let g = takeWhile not_slash s
      in if g = [] then None else Some (g, dropWhile not_slash s))"

definition ident :: "string \<Rightarrow> (string \<times> string) option" where
  "ident s =
     (let g = take 8 (takeWhile alnum s)
      in if length g < 6 then None else Some (g, drop (length g) s))"

definition comment_group :: "string \<Rightarrow> string option" where
  "comment_group s =
     (case literal ''/'' s of None \<Rightarrow> None
      | Some s1 \<Rightarrow>
     (case segment s1 of None \<Rightarrow> None
      | Some (_, s2) \<Rightarrow>
     (case literal ''/'' s2 of None \<Rightarrow> None
      | Some s3 \<Rightarrow>
     (case ident s3 of None \<Rightarrow> None
      | Some (c, _) \<Rightarrow> Some c))))"

definition PATH_REGEX :: "string \<Rightarrow> (string \<times> string \<times> string option) option" where
  "PATH_REGEX path =
     (case literal ''/r/'' path of None \<Rightarrow> None
      | Some s1 \<Rightarrow>
     (case segment s1 of None \<Rightarrow> None
      | Some (subreddit, s2) \<Rightarrow>
     (case literal ''/comments/'' s2 of None \<Rightarrow> None
      | Some s3 \<Rightarrow>
     (case ident s3 of None \<Rightarrow> None
      | Some (post, s4) \<Rightarrow> Some (subreddit, post, comment_group s4)))))"

definition parse_path :: "string \<Rightarrow> exc + (string \<times> string)" where
  "parse_path path =
     (case PATH_REGEX path of
        None \<Rightarrow> Inl (NotAComment (''Source '' @ path @ '' is not a comment or post.''))
      | Some (subreddit, post, comment) \<Rightarrow>
          Inr (case comment of
                 Some c \<Rightarrow> (if c \<noteq> [] then ''t1_'' @ c else ''t3_'' @ post)
               | None \<Rightarrow> ''t3_'' @ post,
               subreddit))"


section \<open>Settings and names taken from outside the module\<close>

definition POST_TIME :: real where
  "POST_TIME = 2 * 60"

definition LINKS_BEFORE_TITLE_CUTOFF :: nat where
  "LINKS_BEFORE_TITLE_CUTOFF = 40"

definition TITLE_LIMIT :: nat where
  "TITLE_LIMIT = 140 - 3"

text \<open>
  \<^verbatim>\<open>TEST\<close> and \<^verbatim>\<open>DEBUG\<close> are read from the process environment by
  \<^verbatim>\<open>settings.py\<close>. \<^verbatim>\<open>urlparse\<close> is library code: the path component it returns
  is a parameter. The name \<^verbatim>\<open>np\<close>, called by \<^verbatim>\<open>_render_comment\<close>, is bound
  nowhere in the three files (\<^verbatim>\<open>from settings import *\<close> does not provide it):
  \<open>None\<close> is the module as it stands, where the call raises \<^verbatim>\<open>NameError\<close>, and
  \<open>Some f\<close> is a module in which the name is bound to \<open>f\<close>.
\<close>

record globals =
  TEST :: bool
  DEBUG :: bool
  urlparse_path :: "string \<Rightarrow> string"
  np :: "(string \<Rightarrow> string) option"

definition call_np :: "globals \<Rightarrow> string \<Rightarrow> exc + string" where
  "call_np g permalink =
     (case np g of None \<Rightarrow> Inl (NameError ''np'') | Some f \<Rightarrow> Inr (f permalink))"

text \<open>\<^verbatim>\<open>str.lower\<close> on ASCII text; bytes outside \<^verbatim>\<open>A-Z\<close> are kept.\<close>

definition lower_char :: "char \<Rightarrow> char" where
  "lower_char c =
     (case map_of (zip ''ABCDEFGHIJKLMNOPQRSTUVWXYZ'' ''abcdefghijklmnopqrstuvwxyz'') c of
        Some d \<Rightarrow> d | None \<Rightarrow> c)"

definition lower :: "string \<Rightarrow> string" where
  "lower s = map lower_char s"

text \<open>Python truthiness of a value that is \<^verbatim>\<open>None\<close> or a string.\<close>

definition truthy :: "string option \<Rightarrow> bool" where
  "truthy v = (case v of None \<Rightarrow> False | Some x \<Rightarrow> x \<noteq> [])"

section \<open>The store\<close>

text \<open>
  The four tables with the columns that the statements of \<^verbatim>\<open>totes.py\<close> name
  (\<^verbatim>\<open>skip\<close>, \<^verbatim>\<open>skip_source\<close>, \<^verbatim>\<open>skip_link\<close>); \<^verbatim>\<open>db.py\<close> still declares the
  older \<^verbatim>\<open>watch\<close> columns. A table is the list of its rows in insertion order.
  The column \<^verbatim>\<open>t\<close> defaults to the time of the insert, and \<^verbatim>\<open>sources.reply\<close>
  is \<^verbatim>\<open>UNIQUE\<close>. The connection holds the committed tables and the tables as the
  open transaction sees them.
\<close>

record pref_row =
  pr_name :: string
  pr_skip_source :: bool
  pr_skip_link :: bool

record source_row =
  sr_id :: string
  sr_reply :: "string option"
  sr_subreddit :: string
  sr_author :: "string option"
  sr_title :: "string option"
  sr_skip :: bool
  sr_t :: real

record link_row =
  lr_id :: string
  lr_source :: string
  lr_permalink :: string
  lr_subreddit :: string
  lr_skip :: bool
  lr_author :: string
  lr_title :: string
  lr_t :: real

record tables =
  users :: "pref_row list"
  subreddits :: "pref_row list"
  sources :: "source_row list"
  links :: "link_row list"

record database =
  working :: tables
  committed :: tables

datatype table = Users | Subreddits | Sources | Links

datatype stmt = SELECT table | UPDATE table | INSERT table

section \<open>The external site\<close>

text \<open>
  What the PRAW client shows of reddit. \<open>resource\<close> is the outcome of fetching a
  comment or a submission by its base-36 id, \<open>feed\<close> the outcome of listing the new
  submissions of the domain, \<open>reply_error\<close> and \<open>edit_error\<close> say whether posting
  under a thing (by full name) or editing a comment (by base-36 id) raises.
  \<open>comments\<close> are the comments created so far, as (name, parent, body), and \<open>fresh_id\<close>
  gives the id of the next one. \<open>requests\<close> records every call that reaches the site.
\<close>

datatype kind = Comment | Submission

record thing =
  th_author :: "string option"
  th_title :: "string option"
  th_archived :: bool

record submission =
  sub_name :: string
  sub_url :: string
  sub_created_utc :: real
  sub_subreddit :: string
  sub_author :: "string option"
  sub_title :: string
  sub_permalink :: string

datatype request = Listing | Fetch kind string | Reply string | Edit string | Snitch string

record reddit =
  resource :: "kind \<Rightarrow> string \<Rightarrow> exc + thing"
  feed :: "exc + submission list"
  reply_error :: "string \<Rightarrow> exc option"
  edit_error :: "string \<Rightarrow> exc option"
  fresh_id :: "nat \<Rightarrow> string"
  comments :: "(string \<times> string \<times> string) list"
  requests :: "request list"

text \<open>
  A PRAW object is a handle: its kind and id, and the attributes once they have been
  fetched.
\<close>

datatype handle = Handle kind string "thing option"

text \<open>
  The log, one entry per call that passes the level filter. \<^verbatim>\<open>log_error(e)\<close> writes the
  class of the exception and a traceback, \<^verbatim>\<open>log.error(str(e))\<close> its text; the entries
  keep the exception itself. The text of some debug messages is shortened.
\<close>

datatype log_entry =
    Debug string
  | Info string
  | Warn string
  | Error_str exc
  | Error_trace exc

text \<open>
  Everything outside the objects of the program: the site, the connection to the store,
  the statements the cursor has executed, the log, the clock and the outcome of the
  request to the liveness URL. Times are seconds as real numbers; \<open>clock w n\<close> is what
  the \<open>n\<close>-th reading of the clock shows, and \<^verbatim>\<open>datetime.now\<close> takes one reading.
\<close>

record world =
  reddit :: reddit
  db :: database
  executed :: "stmt list"
  log :: "log_entry list"
  clock :: "nat \<Rightarrow> real"
  ticks :: nat
  snitch_error :: "exc option"

definition execute :: "stmt \<Rightarrow> world \<Rightarrow> world" where
  "execute q w = w\<lparr>executed := executed w @ [q]\<rparr>"

definition commit :: "world \<Rightarrow> world" where
  "commit w = w\<lparr>db := (db w)\<lparr>committed := working (db w)\<rparr>\<rparr>"

definition rollback :: "world \<Rightarrow> world" where
  "rollback w = w\<lparr>db := (db w)\<lparr>working := committed (db w)\<rparr>\<rparr>"

definition request :: "request \<Rightarrow> world \<Rightarrow> world" where
  "request q w = w\<lparr>reddit := (reddit w)\<lparr>requests := requests (reddit w) @ [q]\<rparr>\<rparr>"

definition log_debug :: "globals \<Rightarrow> string \<Rightarrow> world \<Rightarrow> world" where
  "log_debug g m w = (if DEBUG g then w\<lparr>log := log w @ [Debug m]\<rparr> else w)"

definition log_info :: "string \<Rightarrow> world \<Rightarrow> world" where
  "log_info m w = w\<lparr>log := log w @ [Info m]\<rparr>"

definition log_warn :: "string \<Rightarrow> world \<Rightarrow> world" where
  "log_warn m w = w\<lparr>log := log w @ [Warn m]\<rparr>"

definition log_error_str :: "exc \<Rightarrow> world \<Rightarrow> world" where
  "log_error_str e w = w\<lparr>log := log w @ [Error_str e]\<rparr>"

definition log_error :: "exc \<Rightarrow> world \<Rightarrow> world" where
  "log_error e w = w\<lparr>log := log w @ [Error_trace e]\<rparr>"

definition source_exists :: "string \<Rightarrow> world \<Rightarrow> bool \<times> world" where
  "source_exists i w =
     (let w1 = execute (SELECT Sources) w
      in (list_ex (\<lambda>r. sr_id r = i) (sources (working (db w1))), w1))"

definition link_exists :: "string \<Rightarrow> world \<Rightarrow> bool \<times> world" where
  "link_exists i w =
     (let w1 = execute (SELECT Links) w
      in (list_ex (\<lambda>r. lr_id r = i) (links (working (db w1))), w1))"

definition fetch :: "kind \<Rightarrow> string \<Rightarrow> world \<Rightarrow> (exc + thing) \<times> world" where
  "fetch k b w = (resource (reddit w) k b, request (Fetch k b) w)"

definition attrs :: "handle \<Rightarrow> world \<Rightarrow> (exc + thing) \<times> world" where
  "attrs h w = (case h of Handle k b (Some t) \<Rightarrow> (Inr t, w) | Handle k b None \<Rightarrow> fetch k b w)"

definition fullname :: "kind \<Rightarrow> string \<Rightarrow> string" where
  "fullname k b = (case k of Comment \<Rightarrow> ''t1_'' @ b | Submission \<Rightarrow> ''t3_'' @ b)"

definition reply_to :: "handle \<Rightarrow> string \<Rightarrow> world \<Rightarrow> (exc + string) \<times> world" where
  "reply_to h body w =
     (case h of Handle k b _ \<Rightarrow>
        (let parent = fullname k b; w1 = request (Reply parent) w
         in case reply_error (reddit w1) parent of
              Some e \<Rightarrow> (Inl e, w1)
            | None \<Rightarrow>
                (let nm = ''t1_'' @ fresh_id (reddit w1) (length (comments (reddit w1)))
                 in (Inr nm,
                     w1\<lparr>reddit := (reddit w1)
                          \<lparr>comments := comments (reddit w1) @ [(nm, parent, body)]\<rparr>\<rparr>))))"

definition edit :: "string \<Rightarrow> string \<Rightarrow> world \<Rightarrow> exc option \<times> world" where
  "edit b body w =
     (let w1 = request (Edit b) w
      in case edit_error (reddit w1) b of
           Some e \<Rightarrow> (Some e, w1)
         | None \<Rightarrow>
             (None,
              w1\<lparr>reddit := (reddit w1)
                   \<lparr>comments := map (\<lambda>(n, p, x). if n = ''t1_'' @ b then (n, p, body) else (n, p, x))
                                  (comments (reddit w1))\<rparr>\<rparr>))"


section \<open>\<^verbatim>\<open>Source\<close>\<close>

record source =
  src_path :: string
  src_id :: string
  src_subreddit :: string
  src_submission :: "handle option"
  src_author :: "string option"
  src_title :: "string option"
  src_reply :: "string option"
  src_skip :: bool
  src_is_new :: bool

definition Source :: "globals \<Rightarrow> string \<Rightarrow> exc + source" where
  "Source g url =
     (let path = urlparse_path g (lower url)
      in case parse_path path of
           Inl e \<Rightarrow> Inl e
         | Inr (i, subreddit) \<Rightarrow>
             Inr \<lparr>src_path = path, src_id = i, src_subreddit = subreddit,
                  src_submission = None, src_author = None, src_title = None,
                  src_reply = None, src_skip = False, src_is_new = True\<rparr>)"

definition base36 :: "source \<Rightarrow> string" where
  "base36 s = drop 3 (src_id s)"

definition is_comment :: "source \<Rightarrow> bool" where
  "is_comment s = (take 2 (src_id s) = ''t1'')"

text \<open>
  The property \<^verbatim>\<open>Source.submission\<close>. The handle is stored before the first
  attribute is read, so it stays on the object when that read fails.
\<close>

definition submission :: "source \<Rightarrow> world \<Rightarrow> (exc + handle) \<times> source \<times> world" where
  "submission s w =
     (case src_submission s of
        Some h \<Rightarrow> (Inr h, s, w)
      | None \<Rightarrow>
          (let k = (if is_comment s then Comment else Submission);
               s1 = s\<lparr>src_submission := Some (Handle k (base36 s) None)\<rparr>
           in case fetch k (base36 s) w of
                (Inl e, w1) \<Rightarrow>
                  (Inl (if is_PRAWException e then SubmissionNotFound (src_id s) else e), s1, w1)
              | (Inr t, w1) \<Rightarrow>
                  (Inr (Handle k (base36 s) (Some t)),
                   s1\<lparr>src_submission := Some (Handle k (base36 s) (Some t))\<rparr>, w1)))"

text \<open>Reading an attribute of \<^verbatim>\<open>self.submission\<close>.\<close>

definition submission_attrs :: "source \<Rightarrow> world \<Rightarrow> (exc + thing) \<times> source \<times> world" where
  "submission_attrs s w =
     (case submission s w of
        (Inl e, s1, w1) \<Rightarrow> (Inl e, s1, w1)
      | (Inr h, s1, w1) \<Rightarrow> (case attrs h w1 of (r, w2) \<Rightarrow> (r, s1, w2)))"

definition Source_check_skip :: "source \<Rightarrow> world \<Rightarrow> (exc + bool) \<times> source \<times> world" where
  "Source_check_skip s w =
     (if src_skip s then (Inr True, s, w)
      else
        (let w1 = execute (SELECT Users) w
         in if (case src_author s of
                  None \<Rightarrow> False
                | Some a \<Rightarrow> list_ex (\<lambda>r. pr_name r = a \<and> pr_skip_source r)
                              (users (working (db w1))))
            then (Inr True, s\<lparr>src_skip := True\<rparr>, w1)
            else
              (let w2 = execute (SELECT Subreddits) w1
               in if list_ex (\<lambda>r. pr_name r = src_subreddit s \<and> pr_skip_source r)
                       (subreddits (working (db w2)))
                  then (Inr True, s\<lparr>src_skip := True\<rparr>, w2)
                  else
                    (case submission_attrs s w2 of
                       (Inl e, s1, w3) \<Rightarrow> (Inl e, s1, w3)
                     | (Inr t, s1, w3) \<Rightarrow>
                         (if th_archived t then (Inr True, s1\<lparr>src_skip := True\<rparr>, w3)
                          else (Inr False, s1, w3))))))"

text \<open>
  The two statements of \<^verbatim>\<open>Source.save\<close> on the rows of \<^verbatim>\<open>sources\<close>. The
  \<^verbatim>\<open>UPDATE\<close> leaves \<^verbatim>\<open>id\<close> and \<^verbatim>\<open>t\<close> alone; the \<^verbatim>\<open>INSERT\<close> gives \<^verbatim>\<open>t\<close> its
  default. \<open>reply_taken\<close> is the \<^verbatim>\<open>UNIQUE\<close> constraint on \<^verbatim>\<open>reply\<close>: \<^verbatim>\<open>NULL\<close>
  never clashes.
\<close>

definition update_sources :: "source \<Rightarrow> source_row list \<Rightarrow> source_row list" where
  "update_sources s rows =
     map (\<lambda>row. if sr_id row = src_id s
                 then row\<lparr>sr_reply := src_reply s, sr_subreddit := src_subreddit s,
                          sr_author := src_author s, sr_title := src_title s,
                          sr_skip := src_skip s\<rparr>
                 else row) rows"

definition insert_sources :: "source \<Rightarrow> real \<Rightarrow> source_row list \<Rightarrow> source_row list" where
  "insert_sources s now rows =
     rows @ [\<lparr>sr_id = src_id s, sr_reply = src_reply s, sr_subreddit = src_subreddit s,
              sr_author = src_author s, sr_title = src_title s, sr_skip = src_skip s,
              sr_t = now\<rparr>]"

definition reply_taken :: "string option \<Rightarrow> source_row list \<Rightarrow> bool" where
  "reply_taken v rows =
     (case v of None \<Rightarrow> False | Some r \<Rightarrow> list_ex (\<lambda>row. sr_reply row = Some r) rows)"

definition set_sources :: "source_row list \<Rightarrow> world \<Rightarrow> world" where
  "set_sources rows w = w\<lparr>db := (db w)\<lparr>working := (working (db w))\<lparr>sources := rows\<rparr>\<rparr>\<rparr>"

definition Source_save :: "source \<Rightarrow> world \<Rightarrow> (exc + unit) \<times> world" where
  "Source_save s w =
     (case source_exists (src_id s) w of
        (True, w1) \<Rightarrow>
          (let w2 = execute (UPDATE Sources) w1;
               rows = sources (working (db w2))
           in if reply_taken (src_reply s) (filter (\<lambda>row. sr_id row \<noteq> src_id s) rows)
              then (Inl IntegrityError, w2)
              else (Inr (), commit (set_sources (update_sources s rows) w2)))
      | (False, w1) \<Rightarrow>
          (let w2 = execute (INSERT Sources) w1;
               rows = sources (working (db w2))
           in if reply_taken (src_reply s) rows
              then (Inl IntegrityError, w2)
              else (Inr (), commit (set_sources (insert_sources s (clock w2 (ticks w2)) rows) w2))))"

definition load_title :: "source \<Rightarrow> world \<Rightarrow> (exc + unit) \<times> source \<times> world" where
  "load_title s w =
     (case submission_attrs s w of
        (Inl e, s1, w1) \<Rightarrow> (Inl e, s1, w1)
      | (Inr t, s1, w1) \<Rightarrow>
          (Inr (),
           s1\<lparr>src_title := Some (case th_title t of Some x \<Rightarrow> x | None \<Rightarrow> ''[comment]'')\<rparr>,
           w1))"

definition Source_load :: "source \<Rightarrow> world \<Rightarrow> (exc + unit) \<times> source \<times> world" where
  "Source_load s w =
     (let w1 = execute (SELECT Sources) w
      in case find (\<lambda>r. sr_id r = src_id s) (sources (working (db w1))) of
           Some row \<Rightarrow>
             (Inr (),
              s\<lparr>src_id := sr_id row, src_reply := sr_reply row,
                src_subreddit := sr_subreddit row, src_author := sr_author row,
                src_title := sr_title row, src_skip := sr_skip row,
                src_is_new := False\<rparr>,
              w1)
         | None \<Rightarrow>
             (if \<not> truthy (src_author s)
              then
                (case submission_attrs s w1 of
                   (Inl e, s1, w2) \<Rightarrow> (Inl e, s1, w2)
                 | (Inr t, s1, w2) \<Rightarrow>
                     (case th_author t of
                        Some a \<Rightarrow> load_title (s1\<lparr>src_author := Some (lower a)\<rparr>) w2
                      | None \<Rightarrow> load_title (s1\<lparr>src_author := Some ''[deleted]''\<rparr>) w2))
              else load_title (s\<lparr>src_author := Some ''[deleted]''\<rparr>) w1))"

section \<open>\<^verbatim>\<open>Link\<close>\<close>

record link =
  lnk_id :: string
  lnk_subreddit :: string
  lnk_skip :: bool
  lnk_author :: string
  lnk_title :: string
  lnk_permalink :: string
  lnk_source :: string
  lnk_is_new :: bool

definition Link :: "submission \<Rightarrow> string \<Rightarrow> link" where
  "Link sub src =
     \<lparr>lnk_id = sub_name sub,
      lnk_subreddit = lower (sub_subreddit sub),
      lnk_skip = (case sub_author sub of Some a \<Rightarrow> False | None \<Rightarrow> True),
      lnk_author = (case sub_author sub of Some a \<Rightarrow> lower a | None \<Rightarrow> ''[deleted]''),
      lnk_title = sub_title sub,
      lnk_permalink = sub_permalink sub,
      lnk_source = src,
      lnk_is_new = True\<rparr>"

definition Link_check_skip :: "link \<Rightarrow> world \<Rightarrow> bool \<times> link \<times> world" where
  "Link_check_skip l w =
     (if lnk_skip l then (True, l, w)
      else
        (let w1 = execute (SELECT Users) w
         in if list_ex (\<lambda>r. pr_name r = lnk_author l \<and> pr_skip_link r)
                 (users (working (db w1)))
            then (True, l\<lparr>lnk_skip := True\<rparr>, w1)
            else
              (let w2 = execute (SELECT Subreddits) w1
               in if list_ex (\<lambda>r. pr_name r = lower (lnk_subreddit l) \<and> pr_skip_link r)
                       (subreddits (working (db w2)))
                  then (True, l\<lparr>lnk_skip := True\<rparr>, w2)
                  else (False, l, w2))))"

definition update_links :: "link \<Rightarrow> link_row list \<Rightarrow> link_row list" where
  "update_links l rows =
     map (\<lambda>row. if lr_id row = lnk_id l
                 then row\<lparr>lr_source := lnk_source l, lr_permalink := lnk_permalink l,
                          lr_subreddit := lnk_subreddit l, lr_skip := lnk_skip l,
                          lr_author := lnk_author l, lr_title := lnk_title l\<rparr>
                 else row) rows"

definition insert_links :: "link \<Rightarrow> real \<Rightarrow> link_row list \<Rightarrow> link_row list" where
  "insert_links l now rows =
     rows @ [\<lparr>lr_id = lnk_id l, lr_source = lnk_source l, lr_permalink = lnk_permalink l,
              lr_subreddit = lnk_subreddit l, lr_skip = lnk_skip l,
              lr_author = lnk_author l, lr_title = lnk_title l, lr_t = now\<rparr>]"

definition set_links :: "link_row list \<Rightarrow> world \<Rightarrow> world" where
  "set_links rows w = w\<lparr>db := (db w)\<lparr>working := (working (db w))\<lparr>links := rows\<rparr>\<rparr>\<rparr>"

definition Link_save :: "link \<Rightarrow> world \<Rightarrow> world" where
  "Link_save l w =
     (case link_exists (lnk_id l) w of
        (True, w1) \<Rightarrow>
          (let w2 = execute (UPDATE Links) w1
           in commit (set_links (update_links l (links (working (db w2)))) w2))
      | (False, w1) \<Rightarrow>
          (let w2 = execute (INSERT Links) w1
           in commit (set_links (insert_links l (clock w2 (ticks w2)) (links (working (db w2)))) w2)))"

definition Link_load :: "link \<Rightarrow> world \<Rightarrow> link \<times> world" where
  "Link_load l w =
     (let w1 = execute (SELECT Links) w
      in case find (\<lambda>r. lr_id r = lnk_id l) (links (working (db w1))) of
           Some row \<Rightarrow>
             (l\<lparr>lnk_id := lr_id row, lnk_source := lr_source row,
                lnk_permalink := lr_permalink row, lnk_subreddit := lr_subreddit row,
                lnk_skip := lr_skip row, lnk_author := lr_author row,
                lnk_title := lr_title row, lnk_is_new := False\<rparr>,
              w1)
         | None \<Rightarrow> (l, w1))"


section \<open>\<^verbatim>\<open>Notification\<close>\<close>

record notification =
  ntf_source :: source
  ntf_id :: string
  ntf_reply :: "string option"
  ntf_links :: "(string \<times> string \<times> string) list"

definition Notification :: "source \<Rightarrow> notification" where
  "Notification s = \<lparr>ntf_source = s, ntf_id = src_id s, ntf_reply = src_reply s, ntf_links = []\<rparr>"

text \<open>
  The query of \<^verbatim>\<open>should_notify\<close>: \<^verbatim>\<open>WHERE source=? AND skip=?\<close> with the
  notification's id and \<^verbatim>\<open>False\<close>, \<^verbatim>\<open>ORDER BY subreddit ASC, title ASC\<close>. Text is
  compared byte by byte. Rows with equal keys keep their insertion order here; SQL
  leaves their order open.
\<close>

definition select_links :: "string \<Rightarrow> link_row list \<Rightarrow> (string \<times> string \<times> string) list" where
  "select_links i rows =
     map (\<lambda>r. (lr_subreddit r, lr_title r, lr_permalink r))
       (sort_key (\<lambda>r. (lr_subreddit r, lr_title r))
          (filter (\<lambda>r. lr_source r = i \<and> \<not> lr_skip r) rows))"

definition should_notify :: "notification \<Rightarrow> world \<Rightarrow> bool \<times> notification \<times> world" where
  "should_notify n w =
     (let w1 = execute (SELECT Links) w;
          n1 = n\<lparr>ntf_links := ntf_links n @ select_links (ntf_id n) (links (working (db w1)))\<rparr>
      in (ntf_links n1 \<noteq> [], n1, w1))"

definition newline :: string where
  "newline = [CHR 0x0A]"

definition backslash :: string where
  "backslash = [CHR 0x5C]"

definition apostrophe :: string where
  "apostrophe = [CHR 0x27]"

fun join :: "string \<Rightarrow> string list \<Rightarrow> string" where
  "join sep [] = []"
| "join sep [x] = x"
| "join sep (x # y # ys) = x @ sep @ join sep (y # ys)"

definition preamble :: string where
  "preamble = ''This thread has been linked to from another place on reddit.''"

definition footer :: string where
  "footer =
     newline @ ''[](#footer)*^(If you follow any of the above links, respect the rules of reddit and don''
     @ apostrophe @ ''t vote.)'' @ newline
     @ ''            ^'' @ backslash @ ''([Info](/r/TotesMessenger/wiki/)'' @ newline
     @ ''            ^/'' @ newline
     @ ''            ^[Contact](/message/compose/?to='' @ backslash @ ''/r'' @ backslash
     @ ''/TotesMessenger))* [](#bot)'' @ newline
     @ ''        ''"

definition bullet :: "string \<Rightarrow> string \<Rightarrow> string \<Rightarrow> string" where
  "bullet subreddit title url = ''- [/r/'' @ subreddit @ ''] ['' @ title @ '']('' @ url @ '')''"

fun bullets :: "globals \<Rightarrow> (string \<times> string \<times> string) list \<Rightarrow> exc + string list" where
  "bullets g [] = Inr []"
| "bullets g ((subreddit, title, permalink) # ls) =
     (case call_np g permalink of
        Inl e \<Rightarrow> Inl e
      | Inr url \<Rightarrow>
          (case bullets g ls of
             Inl e \<Rightarrow> Inl e
           | Inr bs \<Rightarrow> Inr (bullet subreddit title url # bs)))"

definition render_comment :: "globals \<Rightarrow> notification \<Rightarrow> exc + string" where
  "render_comment g n =
     (case bullets g (ntf_links n) of
        Inl e \<Rightarrow> Inl e
      | Inr bs \<Rightarrow> Inr (join (newline @ newline) ([preamble] @ bs @ [footer])))"

definition post_reply :: "globals \<Rightarrow> notification \<Rightarrow> world \<Rightarrow> (exc + bool) \<times> notification \<times> world" where
  "post_reply g n w =
     (case render_comment g n of
        Inl e \<Rightarrow> (Inl e, n, w)
      | Inr body \<Rightarrow>
          (if TEST g
           then (Inr True, n,
                 log_debug g (newline @ ''========== COMMENT ============'' @ newline
                   @ ''Source: '' @ src_path (ntf_source n) @ newline @ body @ newline
                   @ ''========== /COMMENT ==========='' @ newline) w)
           else if truthy (ntf_reply n)
           then
             (case edit (drop 3 (the (ntf_reply n))) body w of
                (Some e, w1) \<Rightarrow> (Inl e, n, w1)
              | (None, w1) \<Rightarrow> (Inr True, n, w1))
           else
             (case submission (ntf_source n) w of
                (Inl e, s1, w1) \<Rightarrow> (Inl e, n\<lparr>ntf_source := s1\<rparr>, w1)
              | (Inr h, s1, w1) \<Rightarrow>
                  (case reply_to h body w1 of
                     (Inl e, w2) \<Rightarrow> (Inl e, n\<lparr>ntf_source := s1\<rparr>, w2)
                   | (Inr nm, w2) \<Rightarrow>
                       (let s2 = s1\<lparr>src_reply := Some nm\<rparr>;
                            n1 = n\<lparr>ntf_source := s2, ntf_reply := Some nm\<rparr>
                        in case Source_save s2 w2 of
                             (Inl e, w3) \<Rightarrow> (Inl e, n1, w3)
                           | (Inr u, w3) \<Rightarrow> (Inr True, n1, w3))))))"

section \<open>\<^verbatim>\<open>Totes\<close>\<close>

record totes =
  limit :: nat
  snitch_url :: "string option"
  setup_done :: bool

text \<open>
  \<^verbatim>\<open>sources\<close> is a Python set of \<^verbatim>\<open>Source\<close> objects, equal when their ids are
  equal: adding an element that is already present keeps the old one. The set is a list
  without two elements of one id, in insertion order.
\<close>

definition add :: "source \<Rightarrow> source list \<Rightarrow> source list" where
  "add s batch = (if list_ex (\<lambda>x. src_id x = src_id s) batch then batch else batch @ [s])"

text \<open>Lines 522 to 532 of \<^verbatim>\<open>Totes.run\<close>.\<close>

definition skip_any :: "source \<Rightarrow> link \<Rightarrow> bool" where
  "skip_any s l =
     (if src_subreddit s \<noteq> ''relationship_advice'' \<and> lnk_subreddit l \<noteq> ''ra_automod''
      then True
      else src_skip s \<or> lnk_skip l)"

definition any_new :: "source \<Rightarrow> link \<Rightarrow> bool" where
  "any_new s l = (src_is_new s \<or> lnk_is_new l)"

definition queue :: "source \<Rightarrow> link \<Rightarrow> source list \<Rightarrow> source list" where
  "queue s l batch = (if any_new s l \<and> \<not> skip_any s l then add s batch else batch)"

text \<open>The first \<^verbatim>\<open>try\<close> block of the loop: \<^verbatim>\<open>Source(...)\<close> and \<^verbatim>\<open>source.load()\<close>.\<close>

definition resolve_source :: "globals \<Rightarrow> submission \<Rightarrow> world \<Rightarrow> (exc + source) \<times> world" where
  "resolve_source g sub w =
     (case Source g (sub_url sub) of
        Inl e \<Rightarrow> (Inl e, w)
      | Inr s \<Rightarrow>
          (case Source_load s w of
             (Inl e, s1, w1) \<Rightarrow> (Inl e, w1)
           | (Inr u, s1, w1) \<Rightarrow> (Inr s1, w1)))"

text \<open>
  The second \<^verbatim>\<open>try\<close> block and the rest of the loop body. Every attribute that
  \<^verbatim>\<open>Link(...)\<close> reads came with the listing, and \<^verbatim>\<open>link.load()\<close> only reads the
  store, so nothing in the block raises.
\<close>

definition process_link :: "globals \<Rightarrow> submission \<Rightarrow> source \<Rightarrow> source list \<Rightarrow> world \<Rightarrow> source list \<times> world" where
  "process_link g sub s batch w =
     (case Link_load (Link sub (src_id s)) w of
        (l1, w1) \<Rightarrow>
          (case Link_check_skip l1 (log_debug g (''Got link: '' @ sub_name sub) w1) of
             (b, l2, w2) \<Rightarrow>
               (queue s l2 batch,
                log_debug g ''Any new'' (log_debug g ''Skip any'' (Link_save l2 w2)))))"

definition process :: "globals \<Rightarrow> submission \<Rightarrow> source list \<Rightarrow> world \<Rightarrow> (exc + source list) \<times> world" where
  "process g sub batch w =
     (let now = clock w (ticks w);
          w0 = w\<lparr>ticks := Suc (ticks w)\<rparr>
      in if now - sub_created_utc sub < POST_TIME
         then (Inr batch, log_debug g ''Skipping, too new'' w0)
         else
           (case resolve_source g sub w0 of
              (Inl e, w1) \<Rightarrow>
                (if RECOVERABLE_EXC e
                 then (Inr batch,
                       log_debug g (''Something wrong with source: '' @ sub_name sub)
                         (rollback ((if DEBUG g then log_error e else log_error_str e) w1)))
                 else (Inl e, w1))
            | (Inr s1, w1) \<Rightarrow>
                (case Source_check_skip s1 (log_debug g (''Got source: '' @ sub_name sub) w1) of
                   (Inl e, s2, w2) \<Rightarrow> (Inl e, w2)
                 | (Inr b, s2, w2) \<Rightarrow>
                     (case Source_save s2 w2 of
                        (Inl e, w3) \<Rightarrow> (Inl e, w3)
                      | (Inr u, w3) \<Rightarrow>
                          (case process_link g sub s2 batch w3 of
                             (batch1, w4) \<Rightarrow> (Inr batch1, w4))))))"

fun process_all :: "globals \<Rightarrow> submission list \<Rightarrow> source list \<Rightarrow> world \<Rightarrow> (exc + source list) \<times> world" where
  "process_all g [] batch w = (Inr batch, w)"
| "process_all g (sub # subs) batch w =
     (case process g sub batch w of
        (Inl e, w1) \<Rightarrow> (Inl e, w1)
      | (Inr batch1, w1) \<Rightarrow> process_all g subs batch1 w1)"

fun notify_all :: "globals \<Rightarrow> source list \<Rightarrow> world \<Rightarrow> exc option \<times> world" where
  "notify_all g [] w = (None, w)"
| "notify_all g (s # ss) w =
     (case should_notify (Notification s) w of
        (False, n1, w1) \<Rightarrow> notify_all g ss w1
      | (True, n1, w1) \<Rightarrow>
          (case post_reply g n1 w1 of
             (Inl e, n2, w2) \<Rightarrow>
               (if RECOVERABLE_EXC e then notify_all g ss (rollback (log_error e w2))
                else (Some e, w2))
           | (Inr b, n2, w2) \<Rightarrow> notify_all g ss w2))"

definition snitch :: "totes \<Rightarrow> world \<Rightarrow> exc option \<times> world" where
  "snitch t w =
     (if truthy (snitch_url t)
      then
        (let w1 = request (Snitch (the (snitch_url t)))
                    (log_info (''Snitchin'' @ apostrophe @ ''...'') w)
         in case snitch_error w1 of
              None \<Rightarrow> (None, w1)
            | Some e \<Rightarrow>
                (if e = RequestException
                 then (None, log_error e (log_warn (''Couldn'' @ apostrophe @ ''t snitch'') w1))
                 else (Some e, w1)))
      else (None, w))"

definition run :: "globals \<Rightarrow> totes \<Rightarrow> world \<Rightarrow> exc option \<times> world" where
  "run g t w =
     (if \<not> setup_done t then (Some (Exception ''Totes not ready yet!!!''), w)
      else
        (let w1 = request Listing (log_info ''Running.'' w)
         in case feed (reddit w1) of
              Inl e \<Rightarrow> (Some e, w1)
            | Inr new \<Rightarrow>
                (case process_all g (take (limit t) new) []
                        (log_debug g ''Got new submissions'' w1) of
                   (Inl e, w2) \<Rightarrow> (Some e, w2)
                 | (Inr batch, w2) \<Rightarrow>
                     (case notify_all g batch w2 of
                        (Some e, w3) \<Rightarrow> (Some e, w3)
                      | (None, w3) \<Rightarrow>
                          (case snitch t w3 of
                             (Some e, w4) \<Rightarrow> (Some e, w4)
                           | (None, w4) \<Rightarrow> (None, log_info ''Done.'' w4))))))"

text \<open>
  One turn of the \<^verbatim>\<open>while True\<close> loop of the main program, up to the sleep: a
  recoverable exception that leaves \<^verbatim>\<open>run\<close> is logged and the transaction rolled
  back; any other one ends the process.
\<close>

definition cycle :: "globals \<Rightarrow> totes \<Rightarrow> world \<Rightarrow> exc option \<times> world" where
  "cycle g t w =
     (case run g t w of
        (Some e, w1) \<Rightarrow>
          (if RECOVERABLE_EXC e then (None, rollback (log_error e w1)) else (Some e, w1))
      | (None, w1) \<Rightarrow> (None, w1))"


section \<open>The path shape of the specification\<close>

text \<open>
  The shape \<^verbatim>\<open>/r/{subreddit}/comments/{postId}[/{anything}/{commentId}]\<close> in words:
  a name is a non-empty text without a slash, an id is six to eight characters of
  \<^verbatim>\<open>a-z0-9\<close>. An id ends where it has eight characters, where the text ends, or
  where a character outside \<^verbatim>\<open>a-z0-9\<close> follows.
\<close>

definition wf_name :: "string \<Rightarrow> bool" where
  "wf_name s = (s \<noteq> [] \<and> list_all not_slash s)"

definition wf_id :: "string \<Rightarrow> bool" where
  "wf_id s = (6 \<le> length s \<and> length s \<le> 8 \<and> list_all alnum s)"

definition ends_id :: "string \<Rightarrow> string \<Rightarrow> bool" where
  "ends_id i rest = (length i = 8 \<or> (case rest of [] \<Rightarrow> True | c # cs \<Rightarrow> \<not> alnum c))"

definition comment_shape :: "string \<Rightarrow> bool" where
  "comment_shape rest =
     (\<exists>any cid rest'. rest = ''/'' @ any @ ''/'' @ cid @ rest' \<and> wf_name any \<and> wf_id cid)"

definition path_shape :: "string \<Rightarrow> bool" where
  "path_shape path =
     (\<exists>sub post rest. path = ''/r/'' @ sub @ ''/comments/'' @ post @ rest
        \<and> wf_name sub \<and> wf_id post)"

section \<open>Scenarios\<close>

text \<open>
  Concrete values on which the theorems below are exercised. \<open>url_path\<close> is what
  \<^verbatim>\<open>urlparse(u).path\<close> is for the URLs used here: the text after
  \<^verbatim>\<open>https://www.reddit.com\<close>, up to a query or a fragment.
\<close>

definition url_path :: "string \<Rightarrow> string" where
  "url_path u =
     (case literal ''https://www.reddit.com'' u of
        Some p \<Rightarrow> takeWhile (\<lambda>c. c \<noteq> CHR ''?'' \<and> c \<noteq> CHR ''#'') p
      | None \<Rightarrow> u)"

text \<open>
  Modelled from the spec: the function \<^verbatim>\<open>np\<close> that \<^verbatim>\<open>_render_comment\<close> calls is
  missing from the repository. The specification asks for a no-vote-tracking-tagged link
  to the linking thread: the permalink on \<^verbatim>\<open>np.reddit.com\<close>. It is used only as the
  value of the parameter \<open>np\<close> in the scenarios where the name is bound.
\<close>

definition no_participation :: "string \<Rightarrow> string" where
  "no_participation permalink = ''https://np.reddit.com'' @ permalink"

definition globals0 :: globals where
  "globals0 = \<lparr>TEST = False, DEBUG = False, urlparse_path = url_path, np = None\<rparr>"

definition globals_np :: globals where
  "globals_np = \<lparr>TEST = False, DEBUG = False, urlparse_path = url_path,
                  np = Some no_participation\<rparr>"

definition thing0 :: thing where
  "thing0 = \<lparr>th_author = Some ''Alice'', th_title = Some ''Some title'', th_archived = False\<rparr>"

definition submission0 :: submission where
  "submission0 =
     \<lparr>sub_name = ''t3_lnk001'',
      sub_url = ''https://www.reddit.com/r/relationship_advice/comments/abc123/some_title/'',
      sub_created_utc = 1000,
      sub_subreddit = ''RA_automod'',
      sub_author = Some ''Bob'',
      sub_title = ''Look at this'',
      sub_permalink = ''/r/RA_automod/comments/lnk001/look_at_this/''\<rparr>"

definition reddit0 :: reddit where
  "reddit0 =
     \<lparr>resource = (\<lambda>k b. if k = Submission \<and> b = ''abc123'' then Inr thing0
                          else Inl PRAWException),
      feed = Inr [submission0],
      reply_error = (\<lambda>p. None),
      edit_error = (\<lambda>b. None),
      fresh_id = (\<lambda>n. ''new'' @ replicate n (CHR ''0'')),
      comments = [],
      requests = []\<rparr>"

definition tables0 :: tables where
  "tables0 = \<lparr>users = [], subreddits = [], sources = [], links = []\<rparr>"

definition world0 :: world where
  "world0 =
     \<lparr>reddit = reddit0,
      db = \<lparr>working = tables0, committed = tables0\<rparr>,
      executed = [],
      log = [],
      clock = (\<lambda>n. 2000 + real n),
      ticks = 0,
      snitch_error = None\<rparr>"

definition source0 :: source where
  "source0 =
     \<lparr>src_path = ''/r/relationship_advice/comments/abc123/some_title/'',
      src_id = ''t3_abc123'',
      src_subreddit = ''relationship_advice'',
      src_submission = None,
      src_author = Some ''alice'',
      src_title = Some ''Some title'',
      src_reply = None,
      src_skip = False,
      src_is_new = True\<rparr>"

definition link0 :: link where
  "link0 = Link submission0 ''t3_abc123''"

definition world_prefs :: world where
  "world_prefs =
     world0\<lparr>db :=
       \<lparr>working = tables0\<lparr>users :=
          [\<lparr>pr_name = ''alice'', pr_skip_source = True, pr_skip_link = False\<rparr>,
           \<lparr>pr_name = ''bob'', pr_skip_source = False, pr_skip_link = True\<rparr>]\<rparr>,
        committed = tables0\<lparr>users :=
          [\<lparr>pr_name = ''alice'', pr_skip_source = True, pr_skip_link = False\<rparr>,
           \<lparr>pr_name = ''bob'', pr_skip_source = False, pr_skip_link = True\<rparr>]\<rparr>\<rparr>\<rparr>"

definition row0 :: source_row where
  "row0 =
     \<lparr>sr_id = ''t3_abc123'', sr_reply = None, sr_subreddit = ''relationship_advice'',
      sr_author = Some ''alice'', sr_title = Some ''Some title'', sr_skip = False,
      sr_t = 1500\<rparr>"

definition world_seen :: world where
  "world_seen =
     world0\<lparr>db := \<lparr>working = tables0\<lparr>sources := [row0]\<rparr>,
                     committed = tables0\<lparr>sources := [row0]\<rparr>\<rparr>\<rparr>"

definition fresh0 :: source where
  "fresh0 = source0\<lparr>src_author := None, src_title := None\<rparr>"

definition submission1 :: submission where
  "submission1 =
     \<lparr>sub_name = ''t3_lnk002'',
      sub_url = ''https://www.reddit.com/r/relationship_advice/comments/def456/other_title/'',
      sub_created_utc = 1000,
      sub_subreddit = ''ra_automod'',
      sub_author = Some ''Carol'',
      sub_title = ''Second link'',
      sub_permalink = ''/r/ra_automod/comments/lnk002/second_link/''\<rparr>"

text \<open>The site after the thread \<^verbatim>\<open>abc123\<close> has been deleted.\<close>

definition reddit_gone :: reddit where
  "reddit_gone =
     reddit0\<lparr>resource := (\<lambda>k b. if k = Submission \<and> b = ''def456'' then Inr thing0
                                   else Inl PRAWException),
             feed := Inr [submission0, submission1]\<rparr>"

text \<open>
  A store that has seen the thread \<^verbatim>\<open>abc123\<close> and four links: two to be listed,
  inserted in the order \<^verbatim>\<open>b\<close>, \<^verbatim>\<open>a\<close>, one that is skipped and one of another
  source.
\<close>

definition link_rows :: "link_row list" where
  "link_rows =
     [\<lparr>lr_id = ''t3_lnk001'', lr_source = ''t3_abc123'',
       lr_permalink = ''/r/b/comments/lnk001/x/'', lr_subreddit = ''b'', lr_skip = False,
       lr_author = ''bob'', lr_title = ''x'', lr_t = 1500\<rparr>,
      \<lparr>lr_id = ''t3_lnk002'', lr_source = ''t3_abc123'',
       lr_permalink = ''/r/a/comments/lnk002/y/'', lr_subreddit = ''a'', lr_skip = False,
       lr_author = ''carol'', lr_title = ''y'', lr_t = 1501\<rparr>,
      \<lparr>lr_id = ''t3_lnk003'', lr_source = ''t3_abc123'',
       lr_permalink = ''/r/a/comments/lnk003/w/'', lr_subreddit = ''a'', lr_skip = True,
       lr_author = ''[deleted]'', lr_title = ''w'', lr_t = 1502\<rparr>,
      \<lparr>lr_id = ''t3_lnk004'', lr_source = ''t3_zzz999'',
       lr_permalink = ''/r/c/comments/lnk004/v/'', lr_subreddit = ''c'', lr_skip = False,
       lr_author = ''dave'', lr_title = ''v'', lr_t = 1503\<rparr>]"

definition world_links :: world where
  "world_links =
     world0\<lparr>db := \<lparr>working = tables0\<lparr>sources := [row0], links := link_rows\<rparr>,
                     committed = tables0\<lparr>sources := [row0], links := link_rows\<rparr>\<rparr>\<rparr>"

text \<open>Forty-one links to one source, each with a title of 138 characters.\<close>

definition long_title :: string where
  "long_title = replicate 138 (CHR ''t'')"

definition many_links :: notification where
  "many_links =
     (Notification source0)\<lparr>ntf_links :=
        replicate 41 (''a'', long_title, ''/r/a/comments/lnk001/t/'')\<rparr>"

text \<open>
  A candidate that is 50 seconds old on the clock of \<open>world0\<close>, and a candidate like
  \<open>submission0\<close> posted in another subreddit than \<^verbatim>\<open>ra_automod\<close>.
\<close>

definition submission_new :: submission where
  "submission_new = submission0\<lparr>sub_created_utc := 1950\<rparr>"

definition submission_other :: submission where
  "submission_other = submission0\<lparr>sub_subreddit := ''AskReddit''\<rparr>"

definition link_other :: link where
  "link_other = Link submission_other ''t3_abc123''"

definition totes0 :: totes where
  "totes0 = \<lparr>limit = 25, snitch_url = None, setup_done = True\<rparr>"

text \<open>
  The notification for \<open>source0\<close> as \<^verbatim>\<open>should_notify\<close> leaves it on \<open>world_links\<close>,
  and the settings of a dry run.
\<close>

definition two_links :: notification where
  "two_links =
     (Notification source0)\<lparr>ntf_links :=
        [(''a'', ''y'', ''/r/a/comments/lnk002/y/''), (''b'', ''x'', ''/r/b/comments/lnk001/x/'')]\<rparr>"

definition globals_test :: globals where
  "globals_test = globals0\<lparr>TEST := True\<rparr>"

text \<open>
  The store has seen the thread \<^verbatim>\<open>abc123\<close> and the link to it, the thread has since
  been deleted, and the feed still lists that link, followed by a link to the thread
  \<^verbatim>\<open>def456\<close>.
  \<open>world_unseen\<close> is the same feed on a store that has not seen \<^verbatim>\<open>abc123\<close>.
\<close>

definition link_row0 :: link_row where
  "link_row0 =
     \<lparr>lr_id = ''t3_lnk001'', lr_source = ''t3_abc123'',
      lr_permalink = ''/r/RA_automod/comments/lnk001/look_at_this/'',
      lr_subreddit = ''ra_automod'', lr_skip = False, lr_author = ''bob'',
      lr_title = ''Look at this'', lr_t = 1500\<rparr>"

definition world_gone :: world where
  "world_gone =
     world0\<lparr>reddit := reddit_gone,
            db := \<lparr>working = tables0\<lparr>sources := [row0], links := [link_row0]\<rparr>,
                    committed = tables0\<lparr>sources := [row0], links := [link_row0]\<rparr>\<rparr>\<rparr>"

definition world_unseen :: world where
  "world_unseen = world0\<lparr>reddit := reddit_gone\<rparr>"

section \<open>Title truncation in the words of the specification\<close>

text \<open>
  The rendering the specification describes, to compare \<open>render_comment\<close> with: above
  the cutoff a title longer than the limit is cut to the limit and gets an ellipsis, and
  the body is rendered from the titles so treated.
\<close>

definition truncated :: "nat \<Rightarrow> string \<Rightarrow> string" where
  "truncated n_links title =
     (if n_links > LINKS_BEFORE_TITLE_CUTOFF \<and> length title > TITLE_LIMIT
      then take TITLE_LIMIT title @ ''...''
      else title)"

definition spec_render :: "globals \<Rightarrow> notification \<Rightarrow> exc + string" where
  "spec_render g n =
     render_comment g
       (n\<lparr>ntf_links :=
            map (\<lambda>(subreddit, title, permalink).
                   (subreddit, truncated (length (ntf_links n)) title, permalink))
              (ntf_links n)\<rparr>)"

section \<open>Identity resolution\<close>

lemma literal_iff: "literal p s = Some r \<longleftrightarrow> s = p @ r"
  by (induction p s rule: literal.induct) auto

lemma literal_append [simp]: "literal p (p @ r) = Some r"
  by (simp add: literal_iff)

lemma segment_slash:
  assumes "wf_name g"
  shows "segment (g @ CHR ''/'' # r) = Some (g, CHR ''/'' # r)"
proof -
  from assms have ne: "g \<noteq> []" and ns: "\<forall>c \<in> set g. not_slash c"
    by (auto simp: wf_name_def list_all_iff)
  have "takeWhile not_slash (g @ CHR ''/'' # r) = g"
    using ns by (simp add: takeWhile_append2 not_slash_def)
  moreover have "dropWhile not_slash (g @ CHR ''/'' # r) = CHR ''/'' # r"
    using ns by (simp add: dropWhile_append2 not_slash_def)
  ultimately show ?thesis using ne by (simp add: segment_def)
qed

lemma segment_SomeD:
  assumes "segment s = Some (g, r)"
  shows "s = g @ r \<and> wf_name g"
proof -
  from assms have g: "g = takeWhile not_slash s" and r: "r = dropWhile not_slash s"
    and ne: "g \<noteq> []"
    by (auto simp: segment_def Let_def split: if_splits)
  have "\<forall>c \<in> set g. not_slash c"
    using g by (auto dest: set_takeWhileD)
  then show ?thesis using g r ne by (simp add: wf_name_def list_all_iff)
qed

lemma takeWhile_alnum_prefix:
  "\<forall>c \<in> set p. alnum c \<Longrightarrow> takeWhile alnum (p @ r) = p @ takeWhile alnum r"
  by (simp add: takeWhile_append2)

lemma ident_exact:
  assumes "wf_id p" "ends_id p r"
  shows "ident (p @ r) = Some (p, r)"
proof -
  from assms(1) have al: "\<forall>c \<in> set p. alnum c" and l6: "6 \<le> length p" and l8: "length p \<le> 8"
    by (auto simp: wf_id_def list_all_iff)
  have tw: "takeWhile alnum (p @ r) = p @ takeWhile alnum r"
    using al by (rule takeWhile_alnum_prefix)
  have "take 8 (p @ takeWhile alnum r) = p"
  proof (cases "length p = 8")
    case True
    then show ?thesis by simp
  next
    case False
    with assms(2) have "takeWhile alnum r = []"
      by (cases r) (auto simp: ends_id_def)
    then show ?thesis using l8 by simp
  qed
  then show ?thesis using tw l6 by (simp add: ident_def Let_def)
qed

lemma ident_prefix_not_None:
  assumes "wf_id p"
  shows "ident (p @ r) \<noteq> None"
proof -
  from assms have al: "\<forall>c \<in> set p. alnum c" and l6: "6 \<le> length p"
    by (auto simp: wf_id_def list_all_iff)
  have "takeWhile alnum (p @ r) = p @ takeWhile alnum r"
    using al by (rule takeWhile_alnum_prefix)
  then have "6 \<le> length (take 8 (takeWhile alnum (p @ r)))" using l6 by simp
  then show ?thesis by (simp add: ident_def Let_def)
qed

lemma ident_SomeD:
  assumes "ident s = Some (g, r)"
  shows "s = g @ r \<and> wf_id g"
proof -
  from assms have g: "g = take 8 (takeWhile alnum s)" and r: "r = drop (length g) s"
    and l6: "6 \<le> length g"
    by (auto simp: ident_def Let_def split: if_splits)
  have "take (length g) s = g"
  proof -
    have "length g \<le> length (takeWhile alnum s)" using g by simp
    then have "take (length g) s = take (length g) (takeWhile alnum s)"
      by (metis takeWhile_dropWhile_id take_append diff_is_0_eq take_0 append_Nil2)
    also have "\<dots> = g" using g by (simp add: min_def)
    finally show ?thesis .
  qed
  then have "s = g @ r" using r by (metis append_take_drop_id)
  moreover have "\<forall>c \<in> set g. alnum c"
    using g by (auto dest: in_set_takeD set_takeWhileD)
  moreover have "length g \<le> 8" using g by simp
  ultimately show ?thesis using l6 by (simp add: wf_id_def list_all_iff)
qed

lemma comment_group_exact:
  assumes "wf_name a" "wf_id c" "ends_id c r"
  shows "comment_group (''/'' @ a @ ''/'' @ c @ r) = Some c"
  using assms by (simp add: comment_group_def segment_slash ident_exact)

lemma comment_group_iff: "comment_group s \<noteq> None \<longleftrightarrow> comment_shape s"
proof
  assume "comment_group s \<noteq> None"
  then obtain s1 a s2 s3 c r where
    1: "literal ''/'' s = Some s1" and 2: "segment s1 = Some (a, s2)"
    and 3: "literal ''/'' s2 = Some s3" and 4: "ident s3 = Some (c, r)"
    by (auto simp: comment_group_def split: option.splits)
  from 1 have "s = ''/'' @ s1" by (simp only: literal_iff)
  moreover from 2 have "s1 = a @ s2" "wf_name a" by (auto dest: segment_SomeD)
  moreover from 3 have "s2 = ''/'' @ s3" by (simp only: literal_iff)
  moreover from 4 have "s3 = c @ r" "wf_id c" by (auto dest: ident_SomeD)
  ultimately show "comment_shape s" unfolding comment_shape_def by blast
next
  assume "comment_shape s"
  then obtain a c r where s: "s = ''/'' @ a @ ''/'' @ c @ r" and a: "wf_name a" and c: "wf_id c"
    unfolding comment_shape_def by blast
  from c obtain g r' where "ident (c @ r) = Some (g, r')"
    using ident_prefix_not_None[of c r] by (cases "ident (c @ r)") auto
  then show "comment_group s \<noteq> None"
    using s a by (simp add: comment_group_def segment_slash)
qed

lemma PATH_REGEX_exact:
  assumes "wf_name sub" "wf_id post" "ends_id post rest"
  shows "PATH_REGEX (''/r/'' @ sub @ ''/comments/'' @ post @ rest)
           = Some (sub, post, comment_group rest)"
  using assms by (simp add: PATH_REGEX_def segment_slash ident_exact)

lemma PATH_REGEX_iff: "PATH_REGEX path \<noteq> None \<longleftrightarrow> path_shape path"
proof
  assume "PATH_REGEX path \<noteq> None"
  then obtain s1 a s2 s3 c r where
    1: "literal ''/r/'' path = Some s1" and 2: "segment s1 = Some (a, s2)"
    and 3: "literal ''/comments/'' s2 = Some s3" and 4: "ident s3 = Some (c, r)"
    by (auto simp: PATH_REGEX_def split: option.splits)
  from 1 have "path = ''/r/'' @ s1" by (simp only: literal_iff)
  moreover from 2 have "s1 = a @ s2" "wf_name a" by (auto dest: segment_SomeD)
  moreover from 3 have "s2 = ''/comments/'' @ s3" by (simp only: literal_iff)
  moreover from 4 have "s3 = c @ r" "wf_id c" by (auto dest: ident_SomeD)
  ultimately show "path_shape path" unfolding path_shape_def by blast
next
  assume "path_shape path"
  then obtain a c r where s: "path = ''/r/'' @ a @ ''/comments/'' @ c @ r"
    and a: "wf_name a" and c: "wf_id c"
    unfolding path_shape_def by blast
  from c obtain g r' where "ident (c @ r) = Some (g, r')"
    using ident_prefix_not_None[of c r] by (cases "ident (c @ r)") auto
  then show "PATH_REGEX path \<noteq> None"
    using s a by (simp add: PATH_REGEX_def segment_slash)
qed

lemma ends_id_slash: "ends_id p (CHR ''/'' # r)"
  by (simp add: ends_id_def alnum_def)

text \<open>
  Claim C5. A path of the shape with a comment segment resolves to \<^verbatim>\<open>t1_\<close> and the
  comment id, a path of the shape without one to \<^verbatim>\<open>t3_\<close> and the post id, both with
  the subreddit of the path; a path that does not have the shape fails with
  \<^verbatim>\<open>NotAComment\<close>, and only such a path fails. The result is a function of the path,
  and \<^verbatim>\<open>Source(...)\<close> has the id and the subreddit that the path of the lowercased URL
  resolves to, or fails as the path does.
\<close>

theorem parse_path_identity:
  "(wf_name sub \<and> wf_id post \<and> wf_name any \<and> wf_id cid \<and> ends_id cid rest' \<longrightarrow>
      parse_path (''/r/'' @ sub @ ''/comments/'' @ post @ ''/'' @ any @ ''/'' @ cid @ rest')
        = Inr (''t1_'' @ cid, sub))
   \<and> (wf_name sub \<and> wf_id post \<and> ends_id post rest \<and> \<not> comment_shape rest \<longrightarrow>
      parse_path (''/r/'' @ sub @ ''/comments/'' @ post @ rest) = Inr (''t3_'' @ post, sub))
   \<and> (\<not> path_shape path \<longrightarrow>
      parse_path path = Inl (NotAComment (''Source '' @ path @ '' is not a comment or post.'')))
   \<and> (path_shape path \<longrightarrow> (\<exists>i s. parse_path path = Inr (i, s)))
   \<and> (parse_path (urlparse_path g (lower url)) = Inr (i, subreddit) \<longrightarrow>
        (\<exists>s. Source g url = Inr s \<and> src_id s = i \<and> src_subreddit s = subreddit))
   \<and> (parse_path (urlparse_path g (lower url)) = Inl e \<longrightarrow> Source g url = Inl e)"
proof (intro conjI impI)
  assume h: "wf_name sub \<and> wf_id post \<and> wf_name any \<and> wf_id cid \<and> ends_id cid rest'"
  then have c: "comment_group (''/'' @ any @ ''/'' @ cid @ rest') = Some cid"
    by (simp only: comment_group_exact)
  have "PATH_REGEX (''/r/'' @ sub @ ''/comments/'' @ post @ (''/'' @ any @ ''/'' @ cid @ rest'))
          = Some (sub, post, comment_group (''/'' @ any @ ''/'' @ cid @ rest'))"
    using h by (intro PATH_REGEX_exact) (simp_all add: ends_id_slash)
  moreover from h have "cid \<noteq> []" by (auto simp: wf_id_def)
  ultimately show
    "parse_path (''/r/'' @ sub @ ''/comments/'' @ post @ ''/'' @ any @ ''/'' @ cid @ rest')
       = Inr (''t1_'' @ cid, sub)"
    using c by (simp add: parse_path_def)
next
  assume h: "wf_name sub \<and> wf_id post \<and> ends_id post rest \<and> \<not> comment_shape rest"
  then have "comment_group rest = None" using comment_group_iff[of rest] by blast
  moreover have "PATH_REGEX (''/r/'' @ sub @ ''/comments/'' @ post @ rest)
          = Some (sub, post, comment_group rest)"
    using h by (intro PATH_REGEX_exact) simp_all
  ultimately show "parse_path (''/r/'' @ sub @ ''/comments/'' @ post @ rest) = Inr (''t3_'' @ post, sub)"
    by (simp add: parse_path_def)
next
  assume "\<not> path_shape path"
  then have "PATH_REGEX path = None" using PATH_REGEX_iff[of path] by blast
  then show "parse_path path = Inl (NotAComment (''Source '' @ path @ '' is not a comment or post.''))"
    by (simp add: parse_path_def)
next
  assume "path_shape path"
  then have "PATH_REGEX path \<noteq> None" by (simp only: PATH_REGEX_iff)
  then show "\<exists>i s. parse_path path = Inr (i, s)"
    by (auto simp: parse_path_def split: option.splits)
next
  assume "parse_path (urlparse_path g (lower url)) = Inr (i, subreddit)"
  then show "\<exists>s. Source g url = Inr s \<and> src_id s = i \<and> src_subreddit s = subreddit"
    by (simp add: Source_def Let_def)
next
  assume "parse_path (urlparse_path g (lower url)) = Inl e"
  then show "Source g url = Inl e"
    by (simp add: Source_def Let_def)
qed

theorem parse_path_identity_witness:
  "wf_name ''relationship_advice'' \<and> wf_id ''abc123'' \<and> wf_name ''some_title''
   \<and> wf_id ''def4567'' \<and> ends_id ''def4567'' ''/'' \<and> ends_id ''abc123'' ''/some_title/''
   \<and> \<not> comment_shape ''/some_title/'' \<and> \<not> path_shape ''/user/someone''
   \<and> path_shape ''/r/relationship_advice/comments/abc123/some_title/''
   \<and> parse_path ''/r/relationship_advice/comments/abc123/some_title/def4567/''
       = Inr (''t1_def4567'', ''relationship_advice'')
   \<and> parse_path ''/r/relationship_advice/comments/abc123/some_title/''
       = Inr (''t3_abc123'', ''relationship_advice'')
   \<and> parse_path ''/user/someone''
       = Inl (NotAComment ''Source /user/someone is not a comment or post.'')
   \<and> (\<exists>i s. parse_path ''/r/relationship_advice/comments/abc123/some_title/'' = Inr (i, s))
   \<and> parse_path (urlparse_path globals0 (lower (sub_url submission0)))
       = Inr (''t3_abc123'', ''relationship_advice'')
   \<and> (\<exists>s. Source globals0 (sub_url submission0) = Inr s \<and> src_id s = ''t3_abc123''
          \<and> src_subreddit s = ''relationship_advice'')
   \<and> parse_path (urlparse_path globals0 (lower ''https://www.reddit.com/user/someone''))
       = Inl (NotAComment ''Source /user/someone is not a comment or post.'')
   \<and> Source globals0 ''https://www.reddit.com/user/someone''
       = Inl (NotAComment ''Source /user/someone is not a comment or post.'')"
proof -
  have n1: "wf_name ''relationship_advice''" and n2: "wf_name ''some_title''"
    by (simp_all add: wf_name_def not_slash_def)
  have i1: "wf_id ''abc123''" and i2: "wf_id ''def4567''"
    by (simp_all add: wf_id_def alnum_def)
  have e1: "ends_id ''def4567'' ''/''" and e2: "ends_id ''abc123'' ''/some_title/''"
    by (simp_all add: ends_id_def alnum_def)
  have c: "\<not> comment_shape ''/some_title/''"
    using comment_group_iff[of "''/some_title/''"]
    by (simp add: comment_group_def segment_def ident_def not_slash_def alnum_def)
  have p1: "\<not> path_shape ''/user/someone''"
    using PATH_REGEX_iff[of "''/user/someone''"] by (simp add: PATH_REGEX_def)
  have p2: "path_shape ''/r/relationship_advice/comments/abc123/some_title/''"
    using PATH_REGEX_iff[of "''/r/relationship_advice/comments/abc123/some_title/''"]
    by (simp add: PATH_REGEX_def segment_def ident_def not_slash_def alnum_def)
  have u1: "parse_path (urlparse_path globals0 (lower (sub_url submission0)))
       = Inr (''t3_abc123'', ''relationship_advice'')"
    by (simp add: globals0_def submission0_def lower_def lower_char_def url_path_def
        parse_path_def PATH_REGEX_def comment_group_def segment_def ident_def not_slash_def
        alnum_def)
  have u2: "parse_path (urlparse_path globals0 (lower ''https://www.reddit.com/user/someone''))
       = Inl (NotAComment ''Source /user/someone is not a comment or post.'')"
    by (simp add: globals0_def lower_def lower_char_def url_path_def parse_path_def PATH_REGEX_def)
  note A = parse_path_identity[of "''relationship_advice''" "''abc123''" "''some_title''"
        "''def4567''" "''/''" "''/some_title/''" "''/user/someone''"
        globals0 "sub_url submission0" "''t3_abc123''" "''relationship_advice''"]
  note B = parse_path_identity[of "''relationship_advice''" "''abc123''" "''some_title''"
        "''def4567''" "''/''" "''/some_title/''"
        "''/r/relationship_advice/comments/abc123/some_title/''"
        globals0 "''https://www.reddit.com/user/someone''" _ _
        "NotAComment ''Source /user/someone is not a comment or post.''"]
  from A u1 have s1: "\<exists>s. Source globals0 (sub_url submission0) = Inr s \<and> src_id s = ''t3_abc123''
          \<and> src_subreddit s = ''relationship_advice''"
    by blast
  from B u2 have s2: "Source globals0 ''https://www.reddit.com/user/someone''
       = Inl (NotAComment ''Source /user/someone is not a comment or post.'')"
    by blast
  have rest: "wf_name ''relationship_advice'' \<and> wf_id ''abc123'' \<and> wf_name ''some_title''
   \<and> wf_id ''def4567'' \<and> ends_id ''def4567'' ''/'' \<and> ends_id ''abc123'' ''/some_title/''
   \<and> \<not> comment_shape ''/some_title/'' \<and> \<not> path_shape ''/user/someone''
   \<and> path_shape ''/r/relationship_advice/comments/abc123/some_title/''
   \<and> parse_path ''/r/relationship_advice/comments/abc123/some_title/def4567/''
       = Inr (''t1_def4567'', ''relationship_advice'')
   \<and> parse_path ''/r/relationship_advice/comments/abc123/some_title/''
       = Inr (''t3_abc123'', ''relationship_advice'')
   \<and> parse_path ''/user/someone''
       = Inl (NotAComment ''Source /user/someone is not a comment or post.'')
   \<and> (\<exists>i s. parse_path ''/r/relationship_advice/comments/abc123/some_title/'' = Inr (i, s))"
    using n1 n2 i1 i2 e1 e2 c p1 p2 A B by simp
  show ?thesis
    using rest u1 s1 u2 s2 by blast
qed


section \<open>Saving\<close>

lemma db_execute [simp]: "db (execute q w) = db w"
  and clock_execute [simp]: "clock (execute q w) = clock w"
  and ticks_execute [simp]: "ticks (execute q w) = ticks w"
  and reddit_execute [simp]: "reddit (execute q w) = reddit w"
  by (simp_all add: execute_def)

lemma db_commit_set_sources:
  "db (commit (set_sources rows w)) =
     \<lparr>working = (working (db w))\<lparr>sources := rows\<rparr>, committed = (working (db w))\<lparr>sources := rows\<rparr>\<rparr>"
  by (simp add: commit_def set_sources_def)

lemma db_commit_set_links:
  "db (commit (set_links rows w)) =
     \<lparr>working = (working (db w))\<lparr>links := rows\<rparr>, committed = (working (db w))\<lparr>links := rows\<rparr>\<rparr>"
  by (simp add: commit_def set_links_def)

text \<open>The store after a save, as a function of the store before.\<close>

lemma Source_save_result:
  "Source_save s w =
     (if list_ex (\<lambda>r. sr_id r = src_id s) (sources (working (db w)))
      then (if reply_taken (src_reply s)
                 (filter (\<lambda>row. sr_id row \<noteq> src_id s) (sources (working (db w))))
            then (Inl IntegrityError, execute (UPDATE Sources) (execute (SELECT Sources) w))
            else (Inr (), commit (set_sources (update_sources s (sources (working (db w))))
                                    (execute (UPDATE Sources) (execute (SELECT Sources) w)))))
      else (if reply_taken (src_reply s) (sources (working (db w)))
            then (Inl IntegrityError, execute (INSERT Sources) (execute (SELECT Sources) w))
            else (Inr (), commit (set_sources
                                    (insert_sources s (clock w (ticks w)) (sources (working (db w))))
                                    (execute (INSERT Sources) (execute (SELECT Sources) w))))))"
  by (simp add: Source_save_def source_exists_def Let_def)

lemma Link_save_result:
  "Link_save l w =
     (if list_ex (\<lambda>r. lr_id r = lnk_id l) (links (working (db w)))
      then commit (set_links (update_links l (links (working (db w))))
                     (execute (UPDATE Links) (execute (SELECT Links) w)))
      else commit (set_links (insert_links l (clock w (ticks w)) (links (working (db w))))
                     (execute (INSERT Links) (execute (SELECT Links) w))))"
  by (simp add: Link_save_def link_exists_def Let_def)

lemma map_fix: "(\<And>x. x \<in> set xs \<Longrightarrow> f x = x) \<Longrightarrow> map f xs = xs"
  by (induction xs) auto

lemma update_sources_twice: "update_sources s (update_sources s rows) = update_sources s rows"
  by (simp add: update_sources_def)

lemma update_sources_insert:
  "update_sources s (insert_sources s now rows) = insert_sources s now (update_sources s rows)"
  by (simp add: update_sources_def insert_sources_def)

lemma update_sources_absent:
  "\<not> list_ex (\<lambda>r. sr_id r = src_id s) rows \<Longrightarrow> update_sources s rows = rows"
  unfolding update_sources_def by (rule map_fix) (auto simp: list_ex_iff)

lemma ids_update_sources: "map sr_id (update_sources s rows) = map sr_id rows"
  by (simp add: update_sources_def)

lemma t_update_sources: "map sr_t (update_sources s rows) = map sr_t rows"
  by (simp add: update_sources_def)

lemma ex_update_sources:
  "list_ex (\<lambda>r. sr_id r = i) (update_sources s rows) = list_ex (\<lambda>r. sr_id r = i) rows"
  by (induction rows) (auto simp: update_sources_def)

lemma others_update_sources:
  "filter (\<lambda>row. sr_id row \<noteq> src_id s) (update_sources s rows)
     = filter (\<lambda>row. sr_id row \<noteq> src_id s) rows"
  by (induction rows) (auto simp: update_sources_def)

lemma others_insert_sources:
  "filter (\<lambda>row. sr_id row \<noteq> src_id s) (insert_sources s now rows)
     = filter (\<lambda>row. sr_id row \<noteq> src_id s) rows"
  by (simp add: insert_sources_def)

lemma ex_insert_sources: "list_ex (\<lambda>r. sr_id r = src_id s) (insert_sources s now rows)"
  by (simp add: insert_sources_def)

lemma reply_taken_filter:
  "\<not> reply_taken v rows \<Longrightarrow> \<not> reply_taken v (filter P rows)"
  by (auto simp: reply_taken_def list_ex_iff split: option.splits)

lemma Source_save_twice:
  assumes "Source_save s w = (Inr (), w1)" and "db w2 = db w1"
  shows "fst (Source_save s w2) = Inr () \<and> db (snd (Source_save s w2)) = db w1"
proof (cases "list_ex (\<lambda>r. sr_id r = src_id s) (sources (working (db w)))")
  case True
  let ?rows = "sources (working (db w))"
  from assms(1) True have nt: "\<not> reply_taken (src_reply s) (filter (\<lambda>row. sr_id row \<noteq> src_id s) ?rows)"
    and w1: "w1 = commit (set_sources (update_sources s ?rows)
                      (execute (UPDATE Sources) (execute (SELECT Sources) w)))"
    by (auto simp: Source_save_result split: if_splits)
  have d1: "db w1 = \<lparr>working = (working (db w))\<lparr>sources := update_sources s ?rows\<rparr>,
                     committed = (working (db w))\<lparr>sources := update_sources s ?rows\<rparr>\<rparr>"
    unfolding w1 by (simp add: db_commit_set_sources)
  have r2: "sources (working (db w2)) = update_sources s ?rows"
    using assms(2) d1 by simp
  show ?thesis
    using True nt
    by (simp add: Source_save_result[of s w2] r2 ex_update_sources others_update_sources
        update_sources_twice db_commit_set_sources assms(2) d1)
next
  case False
  let ?rows = "sources (working (db w))"
  let ?new = "insert_sources s (clock w (ticks w)) ?rows"
  from assms(1) False have nt: "\<not> reply_taken (src_reply s) ?rows"
    and w1: "w1 = commit (set_sources ?new
                      (execute (INSERT Sources) (execute (SELECT Sources) w)))"
    by (auto simp: Source_save_result split: if_splits)
  have d1: "db w1 = \<lparr>working = (working (db w))\<lparr>sources := ?new\<rparr>,
                     committed = (working (db w))\<lparr>sources := ?new\<rparr>\<rparr>"
    unfolding w1 by (simp add: db_commit_set_sources)
  have r2: "sources (working (db w2)) = ?new"
    using assms(2) d1 by simp
  have u: "update_sources s ?new = ?new"
    using False by (simp add: update_sources_insert update_sources_absent)
  show ?thesis
    using nt
    by (simp add: Source_save_result[of s w2] r2 ex_insert_sources others_insert_sources
        reply_taken_filter u db_commit_set_sources assms(2) d1)
qed


lemma update_links_twice: "update_links l (update_links l rows) = update_links l rows"
  by (simp add: update_links_def)

lemma update_links_insert:
  "update_links l (insert_links l now rows) = insert_links l now (update_links l rows)"
  by (simp add: update_links_def insert_links_def)

lemma update_links_absent:
  "\<not> list_ex (\<lambda>r. lr_id r = lnk_id l) rows \<Longrightarrow> update_links l rows = rows"
  unfolding update_links_def by (rule map_fix) (auto simp: list_ex_iff)

lemma ex_update_links:
  "list_ex (\<lambda>r. lr_id r = i) (update_links l rows) = list_ex (\<lambda>r. lr_id r = i) rows"
  by (induction rows) (auto simp: update_links_def)

lemma ex_insert_links: "list_ex (\<lambda>r. lr_id r = lnk_id l) (insert_links l now rows)"
  by (simp add: insert_links_def)

lemma Link_save_twice:
  assumes "db w2 = db (Link_save l w)"
  shows "db (Link_save l w2) = db (Link_save l w)"
proof (cases "list_ex (\<lambda>r. lr_id r = lnk_id l) (links (working (db w)))")
  case True
  let ?rows = "links (working (db w))"
  have d1: "db (Link_save l w) = \<lparr>working = (working (db w))\<lparr>links := update_links l ?rows\<rparr>,
                     committed = (working (db w))\<lparr>links := update_links l ?rows\<rparr>\<rparr>"
    using True by (simp add: Link_save_result db_commit_set_links)
  have r2: "links (working (db w2)) = update_links l ?rows"
    using assms d1 by simp
  have "db (Link_save l w2) = \<lparr>working = (working (db w))\<lparr>links := update_links l ?rows\<rparr>,
                     committed = (working (db w))\<lparr>links := update_links l ?rows\<rparr>\<rparr>"
    using True
    by (simp add: Link_save_result[of l w2] r2 ex_update_links update_links_twice
        db_commit_set_links assms d1)
  then show ?thesis by (simp only: d1)
next
  case False
  let ?rows = "links (working (db w))"
  let ?new = "insert_links l (clock w (ticks w)) ?rows"
  have d1: "db (Link_save l w) = \<lparr>working = (working (db w))\<lparr>links := ?new\<rparr>,
                     committed = (working (db w))\<lparr>links := ?new\<rparr>\<rparr>"
    using False by (simp add: Link_save_result db_commit_set_links)
  have r2: "links (working (db w2)) = ?new"
    using assms d1 by simp
  have u: "update_links l ?new = ?new"
    using False by (simp add: update_links_insert update_links_absent)
  have "db (Link_save l w2) = \<lparr>working = (working (db w))\<lparr>links := ?new\<rparr>,
                     committed = (working (db w))\<lparr>links := ?new\<rparr>\<rparr>"
    by (simp add: Link_save_result[of l w2] r2 ex_insert_links u db_commit_set_links assms d1)
  then show ?thesis by (simp only: d1)
qed

lemma Source_save_keeps_t:
  assumes "list_ex (\<lambda>r. sr_id r = src_id s) (sources (working (db w)))"
    and "Source_save s w = (Inr (), w1)"
  shows "map (\<lambda>r. (sr_id r, sr_t r)) (sources (working (db w1)))
           = map (\<lambda>r. (sr_id r, sr_t r)) (sources (working (db w)))"
proof -
  from assms have w1: "w1 = commit (set_sources (update_sources s (sources (working (db w))))
                      (execute (UPDATE Sources) (execute (SELECT Sources) w)))"
    by (auto simp: Source_save_result split: if_splits)
  show ?thesis
    unfolding w1 by (simp add: db_commit_set_sources update_sources_def)
qed

lemma Link_save_keeps_t:
  assumes "list_ex (\<lambda>r. lr_id r = lnk_id l) (links (working (db w)))"
  shows "map (\<lambda>r. (lr_id r, lr_t r)) (links (working (db (Link_save l w))))
           = map (\<lambda>r. (lr_id r, lr_t r)) (links (working (db w)))"
  using assms by (simp add: Link_save_result db_commit_set_links update_links_def)

text \<open>
  Claim C8. A second \<^verbatim>\<open>save\<close> of the same \<^verbatim>\<open>Source\<close> or \<^verbatim>\<open>Link\<close>, whatever the
  clock shows by then, succeeds and leaves the store (the tables of the transaction and
  the committed ones) as the first one left it; and where the row exists the save keeps
  the \<^verbatim>\<open>t\<close> column of every row.
\<close>

theorem save_idempotent:
  "(Source_save s w = (Inr (), w1) \<and> db w2 = db w1 \<longrightarrow>
      fst (Source_save s w2) = Inr () \<and> db (snd (Source_save s w2)) = db w1)
   \<and> (db v2 = db (Link_save l v) \<longrightarrow> db (Link_save l v2) = db (Link_save l v))
   \<and> (list_ex (\<lambda>r. sr_id r = src_id s) (sources (working (db w)))
        \<and> Source_save s w = (Inr (), w1) \<longrightarrow>
      map (\<lambda>r. (sr_id r, sr_t r)) (sources (working (db w1)))
        = map (\<lambda>r. (sr_id r, sr_t r)) (sources (working (db w))))
   \<and> (list_ex (\<lambda>r. lr_id r = lnk_id l) (links (working (db v))) \<longrightarrow>
      map (\<lambda>r. (lr_id r, lr_t r)) (links (working (db (Link_save l v))))
        = map (\<lambda>r. (lr_id r, lr_t r)) (links (working (db v))))"
  using Source_save_twice[of s w w1 w2] Link_save_twice[of v2 l v]
    Source_save_keeps_t[of s w w1] Link_save_keeps_t[of l v]
  by blast

theorem save_idempotent_witness:
  "Source_save source0 world0 = (Inr (), snd (Source_save source0 world0))
   \<and> fst (Source_save source0 (snd (Source_save source0 world0))) = Inr ()
   \<and> db (snd (Source_save source0 (snd (Source_save source0 world0))))
       = db (snd (Source_save source0 world0))
   \<and> db (Link_save link0 (Link_save link0 world0)) = db (Link_save link0 world0)
   \<and> list_ex (\<lambda>r. sr_id r = src_id source0)
       (sources (working (db (snd (Source_save source0 world0)))))
   \<and> map (\<lambda>r. (sr_id r, sr_t r))
       (sources (working (db (snd (Source_save source0 (snd (Source_save source0 world0)))))))
       = [(''t3_abc123'', 2000)]
   \<and> list_ex (\<lambda>r. lr_id r = lnk_id link0) (links (working (db (Link_save link0 world0))))
   \<and> map (\<lambda>r. (lr_id r, lr_t r))
       (links (working (db (Link_save link0 (Link_save link0 world0)))))
       = [(''t3_lnk001'', 2000)]"
proof -
  let ?w1 = "snd (Source_save source0 world0)"
  let ?w2 = "snd (Source_save source0 ?w1)"
  let ?v1 = "Link_save link0 world0"
  have f1: "fst (Source_save source0 world0) = Inr ()"
    by (simp add: Source_save_result source0_def world0_def tables0_def reply_taken_def)
  then have h1: "Source_save source0 world0 = (Inr (), ?w1)"
    by (simp add: prod_eq_iff)
  have s1: "sources (working (db ?w1)) =
      [\<lparr>sr_id = ''t3_abc123'', sr_reply = None, sr_subreddit = ''relationship_advice'',
        sr_author = Some ''alice'', sr_title = Some ''Some title'', sr_skip = False,
        sr_t = 2000\<rparr>]"
    by (simp add: Source_save_result source0_def world0_def tables0_def reply_taken_def
        db_commit_set_sources insert_sources_def)
  have e1: "list_ex (\<lambda>r. sr_id r = src_id source0) (sources (working (db ?w1)))"
    unfolding s1 by (simp add: source0_def)
  have l1: "links (working (db ?v1)) =
      [\<lparr>lr_id = ''t3_lnk001'', lr_source = ''t3_abc123'',
        lr_permalink = ''/r/RA_automod/comments/lnk001/look_at_this/'',
        lr_subreddit = lower ''RA_automod'', lr_skip = False, lr_author = lower ''Bob'',
        lr_title = ''Look at this'', lr_t = 2000\<rparr>]"
    by (simp add: Link_save_result link0_def Link_def submission0_def world0_def tables0_def
        db_commit_set_links insert_links_def)
  have e2: "list_ex (\<lambda>r. lr_id r = lnk_id link0) (links (working (db ?v1)))"
    unfolding l1 by (simp add: link0_def Link_def submission0_def)
  note A = save_idempotent[of source0 world0 ?w1 ?w1 ?v1 link0 world0]
  note B = save_idempotent[of source0 ?w1 ?w2 ?w2 ?v1 link0 ?v1]
  from A h1 have a1: "fst (Source_save source0 ?w1) = Inr ()" and a2: "db ?w2 = db ?w1"
    and a3: "db (Link_save link0 ?v1) = db ?v1"
    by blast+
  from a1 have h2: "Source_save source0 ?w1 = (Inr (), ?w2)"
    by (simp add: prod_eq_iff)
  from B e1 h2 have b1: "map (\<lambda>r. (sr_id r, sr_t r)) (sources (working (db ?w2)))
      = map (\<lambda>r. (sr_id r, sr_t r)) (sources (working (db ?w1)))"
    by blast
  from B e2 have b2: "map (\<lambda>r. (lr_id r, lr_t r)) (links (working (db (Link_save link0 ?v1))))
      = map (\<lambda>r. (lr_id r, lr_t r)) (links (working (db ?v1)))"
    by blast
  show ?thesis
    using h1 a1 a2 a3 e1 e2 b1 b2 by (simp add: s1 l1)
qed


section \<open>Skip latching\<close>

text \<open>
  Claim C7. On a \<^verbatim>\<open>Source\<close> or \<^verbatim>\<open>Link\<close> whose \<^verbatim>\<open>skip\<close> is set,
  \<^verbatim>\<open>check_skip\<close> returns \<^verbatim>\<open>True\<close> and hands the object and the world back as they
  were: no statement is executed and no request is made. Whenever \<^verbatim>\<open>check_skip\<close>
  returns \<^verbatim>\<open>True\<close> the flag is set on the object, so every later call on it, in
  whatever world, returns \<^verbatim>\<open>True\<close> in the same way.
\<close>

theorem check_skip_latches:
  "(src_skip s \<longrightarrow> Source_check_skip s w = (Inr True, s, w))
   \<and> (Source_check_skip s w = (Inr True, s1, w1) \<longrightarrow>
        src_skip s1 \<and> Source_check_skip s1 w2 = (Inr True, s1, w2))
   \<and> (lnk_skip l \<longrightarrow> Link_check_skip l v = (True, l, v))
   \<and> (Link_check_skip l v = (True, l1, v1) \<longrightarrow>
        lnk_skip l1 \<and> Link_check_skip l1 v2 = (True, l1, v2))"
proof (intro conjI impI)
  assume "src_skip s"
  then show "Source_check_skip s w = (Inr True, s, w)"
    by (simp add: Source_check_skip_def)
next
  assume a: "Source_check_skip s w = (Inr True, s1, w1)"
  then show "src_skip s1"
    by (auto simp: Source_check_skip_def Let_def split: if_splits prod.splits sum.splits)
  then show "Source_check_skip s1 w2 = (Inr True, s1, w2)"
    by (simp add: Source_check_skip_def)
next
  assume "lnk_skip l"
  then show "Link_check_skip l v = (True, l, v)"
    by (simp add: Link_check_skip_def)
next
  assume a: "Link_check_skip l v = (True, l1, v1)"
  then show "lnk_skip l1"
    by (auto simp: Link_check_skip_def Let_def split: if_splits)
  then show "Link_check_skip l1 v2 = (True, l1, v2)"
    by (simp add: Link_check_skip_def)
qed


theorem check_skip_latches_witness:
  "src_skip (source0\<lparr>src_skip := True\<rparr>)
   \<and> Source_check_skip (source0\<lparr>src_skip := True\<rparr>) world_prefs
       = (Inr True, source0\<lparr>src_skip := True\<rparr>, world_prefs)
   \<and> Source_check_skip source0 world_prefs
       = (Inr True, source0\<lparr>src_skip := True\<rparr>, execute (SELECT Users) world_prefs)
   \<and> Source_check_skip (source0\<lparr>src_skip := True\<rparr>) world0
       = (Inr True, source0\<lparr>src_skip := True\<rparr>, world0)
   \<and> lnk_skip (link0\<lparr>lnk_skip := True\<rparr>)
   \<and> Link_check_skip (link0\<lparr>lnk_skip := True\<rparr>) world_prefs
       = (True, link0\<lparr>lnk_skip := True\<rparr>, world_prefs)
   \<and> Link_check_skip link0 world_prefs
       = (True, link0\<lparr>lnk_skip := True\<rparr>, execute (SELECT Users) world_prefs)
   \<and> Link_check_skip (link0\<lparr>lnk_skip := True\<rparr>) world0
       = (True, link0\<lparr>lnk_skip := True\<rparr>, world0)"
proof -
  let ?s = "source0\<lparr>src_skip := True\<rparr>" and ?l = "link0\<lparr>lnk_skip := True\<rparr>"
  have a: "src_skip ?s" and b: "lnk_skip ?l" by simp_all
  have c: "Source_check_skip source0 world_prefs = (Inr True, ?s, execute (SELECT Users) world_prefs)"
    by (simp add: Source_check_skip_def Let_def source0_def world_prefs_def world0_def execute_def)
  have d: "Link_check_skip link0 world_prefs = (True, ?l, execute (SELECT Users) world_prefs)"
    by (simp add: Link_check_skip_def Let_def link0_def Link_def submission0_def lower_def
        lower_char_def world_prefs_def world0_def execute_def)
  show ?thesis
    using a b c d
      check_skip_latches[of ?s world_prefs ?s world_prefs world0 ?l world_prefs ?l world_prefs world0]
      check_skip_latches[of source0 world_prefs ?s "execute (SELECT Users) world_prefs" world0
        link0 world_prefs ?l "execute (SELECT Users) world_prefs" world0]
    by simp
qed

section \<open>Loading a \<^verbatim>\<open>Source\<close>\<close>

lemma submission_fetched:
  assumes "src_submission s = None"
    and "resource (reddit w) (if is_comment s then Comment else Submission) (base36 s) = Inr t"
  shows "submission_attrs s w =
           (Inr t,
            s\<lparr>src_submission := Some (Handle (if is_comment s then Comment else Submission) (base36 s) (Some t))\<rparr>,
            request (Fetch (if is_comment s then Comment else Submission) (base36 s)) w)"
  using assms by (simp add: submission_attrs_def submission_def fetch_def attrs_def Let_def)

lemma submission_cached:
  "src_submission s = Some (Handle k b (Some t)) \<Longrightarrow> submission_attrs s w = (Inr t, s, w)"
  by (simp add: submission_attrs_def submission_def attrs_def)

lemma submission_not_found:
  assumes "src_submission s = None"
    and "resource (reddit w) (if is_comment s then Comment else Submission) (base36 s) = Inl e"
    and "is_PRAWException e"
  shows "fst (submission s w) = Inl (SubmissionNotFound (src_id s))"
    and "fst (submission_attrs s w) = Inl (SubmissionNotFound (src_id s))"
  using assms by (simp_all add: submission_attrs_def submission_def fetch_def Let_def)

lemma Source_fresh:
  assumes "Source g url = Inr s"
  shows "src_author s = None \<and> src_submission s = None \<and> src_is_new s \<and> src_title s = None
         \<and> src_reply s = None \<and> \<not> src_skip s"
  using assms by (auto simp: Source_def Let_def split: sum.splits)

lemma Source_load_row:
  assumes "find (\<lambda>r. sr_id r = src_id s) (sources (working (db w))) = Some row"
  shows "Source_load s w =
           (Inr (),
            s\<lparr>src_id := sr_id row, src_reply := sr_reply row, src_subreddit := sr_subreddit row,
              src_author := sr_author row, src_title := sr_title row, src_skip := sr_skip row,
              src_is_new := False\<rparr>,
            execute (SELECT Sources) w)"
  using assms by (simp add: Source_load_def Let_def execute_def)

lemma Source_load_fetch:
  assumes "find (\<lambda>r. sr_id r = src_id s) (sources (working (db w))) = None"
    and "src_author s = None" and "src_submission s = None"
    and "resource (reddit w) (if is_comment s then Comment else Submission) (base36 s) = Inr t"
  shows "Source_load s w =
           (Inr (),
            s\<lparr>src_submission := Some (Handle (if is_comment s then Comment else Submission) (base36 s) (Some t)),
              src_author := Some (case th_author t of Some a \<Rightarrow> lower a | None \<Rightarrow> ''[deleted]''),
              src_title := Some (case th_title t of Some x \<Rightarrow> x | None \<Rightarrow> ''[comment]'')\<rparr>,
            request (Fetch (if is_comment s then Comment else Submission) (base36 s))
              (execute (SELECT Sources) w))"
proof -
  define k where "k = (if is_comment s then Comment else Submission)"
  define w1 where "w1 = execute (SELECT Sources) w"
  define h where "h = Handle k (base36 s) (Some t)"
  define ti where "ti = (case th_title t of Some x \<Rightarrow> x | None \<Rightarrow> ''[comment]'')"
  have r: "resource (reddit w1) (if is_comment s then Comment else Submission) (base36 s) = Inr t"
    using assms(4) by (simp add: execute_def w1_def)
  have f: "find (\<lambda>r. sr_id r = src_id s) (sources (working (db w1))) = None"
    using assms(1) by (simp add: execute_def w1_def)
  have 1: "submission_attrs s w1 = (Inr t, s\<lparr>src_submission := Some h\<rparr>, request (Fetch k (base36 s)) w1)"
    using submission_fetched[OF assms(3) r] by (simp only: k_def h_def)
  have 2: "load_title (s\<lparr>src_submission := Some h, src_author := a\<rparr>) w' =
      (Inr (), s\<lparr>src_submission := Some h, src_author := a, src_title := Some ti\<rparr>, w')" for a w'
    by (simp add: load_title_def submission_cached[of _ k "base36 s" t] h_def ti_def)
  have "Source_load s w =
          (Inr (),
           s\<lparr>src_submission := Some h,
             src_author := Some (case th_author t of Some a \<Rightarrow> lower a | None \<Rightarrow> ''[deleted]''),
             src_title := Some ti\<rparr>,
           request (Fetch k (base36 s)) w1)"
  proof (cases "th_author t")
    case None
    then show ?thesis
      unfolding Source_load_def Let_def w1_def[symmetric]
      by (simp add: f assms(2) truthy_def 1 2)
  next
    case (Some a)
    then show ?thesis
      unfolding Source_load_def Let_def w1_def[symmetric]
      by (simp add: f assms(2) truthy_def 1 2)
  qed
  then show ?thesis by (simp only: k_def w1_def h_def ti_def)
qed

lemma Source_load_not_found:
  assumes "find (\<lambda>r. sr_id r = src_id s) (sources (working (db w))) = None"
    and "src_author s = None" and "src_submission s = None"
    and "resource (reddit w) (if is_comment s then Comment else Submission) (base36 s) = Inl e"
    and "is_PRAWException e"
  shows "fst (Source_load s w) = Inl (SubmissionNotFound (src_id s))"
proof -
  define w1 where "w1 = execute (SELECT Sources) w"
  have r: "resource (reddit w1) (if is_comment s then Comment else Submission) (base36 s) = Inl e"
    using assms(4) by (simp add: execute_def w1_def)
  have f: "find (\<lambda>r. sr_id r = src_id s) (sources (working (db w1))) = None"
    using assms(1) by (simp add: execute_def w1_def)
  have "fst (submission_attrs s w1) = Inl (SubmissionNotFound (src_id s))"
    using submission_not_found(2)[OF assms(3) r assms(5)] .
  then obtain s' w' where "submission_attrs s w1 = (Inl (SubmissionNotFound (src_id s)), s', w')"
    by (cases "submission_attrs s w1") auto
  then show ?thesis
    unfolding Source_load_def Let_def w1_def[symmetric]
    by (simp add: f assms(2) truthy_def)
qed


text \<open>
  Claim C9. With a row for the id, \<^verbatim>\<open>Source.load\<close> takes every field from the row,
  clears \<^verbatim>\<open>is_new\<close> and only executes its \<^verbatim>\<open>SELECT\<close>: the site is not contacted.
  Without a row, a freshly constructed \<^verbatim>\<open>Source\<close> whose resource can be fetched gets
  the lowercased author name, or \<^verbatim>\<open>[deleted]\<close> when there is no author, and the
  title, or \<^verbatim>\<open>[comment]\<close> when the resource has no title attribute, as comments do;
  \<^verbatim>\<open>is_new\<close> stays set. When the fetch raises a PRAW exception, the property
  \<^verbatim>\<open>submission\<close>, and with it \<^verbatim>\<open>load\<close>, raises \<^verbatim>\<open>SubmissionNotFound\<close> with
  the id of the \<^verbatim>\<open>Source\<close>.
\<close>

theorem Source_load_spec:
  "(find (\<lambda>r. sr_id r = src_id s) (sources (working (db w))) = Some row \<longrightarrow>
      Source_load s w =
        (Inr (),
         s\<lparr>src_id := sr_id row, src_reply := sr_reply row, src_subreddit := sr_subreddit row,
           src_author := sr_author row, src_title := sr_title row, src_skip := sr_skip row,
           src_is_new := False\<rparr>,
         execute (SELECT Sources) w)
      \<and> reddit (execute (SELECT Sources) w) = reddit w)
   \<and> (Source g url = Inr s'
        \<and> find (\<lambda>r. sr_id r = src_id s') (sources (working (db w))) = None
        \<and> resource (reddit w) (if is_comment s' then Comment else Submission) (base36 s') = Inr t
      \<longrightarrow>
      Source_load s' w =
        (Inr (),
         s'\<lparr>src_submission :=
               Some (Handle (if is_comment s' then Comment else Submission) (base36 s') (Some t)),
            src_author := Some (case th_author t of Some a \<Rightarrow> lower a | None \<Rightarrow> ''[deleted]''),
            src_title := Some (case th_title t of Some x \<Rightarrow> x | None \<Rightarrow> ''[comment]'')\<rparr>,
         request (Fetch (if is_comment s' then Comment else Submission) (base36 s'))
           (execute (SELECT Sources) w))
      \<and> src_is_new s')
   \<and> (Source g url = Inr s'
        \<and> resource (reddit w) (if is_comment s' then Comment else Submission) (base36 s') = Inl e
        \<and> is_PRAWException e
      \<longrightarrow>
      fst (submission s' w) = Inl (SubmissionNotFound (src_id s'))
      \<and> (find (\<lambda>r. sr_id r = src_id s') (sources (working (db w))) = None \<longrightarrow>
           fst (Source_load s' w) = Inl (SubmissionNotFound (src_id s'))))"
proof (intro conjI impI)
  assume "find (\<lambda>r. sr_id r = src_id s) (sources (working (db w))) = Some row"
  then show "Source_load s w =
        (Inr (),
         s\<lparr>src_id := sr_id row, src_reply := sr_reply row, src_subreddit := sr_subreddit row,
           src_author := sr_author row, src_title := sr_title row, src_skip := sr_skip row,
           src_is_new := False\<rparr>,
         execute (SELECT Sources) w)"
    by (rule Source_load_row)
next
  show "reddit (execute (SELECT Sources) w) = reddit w"
    by (simp add: execute_def)
next
  assume h: "Source g url = Inr s'
        \<and> find (\<lambda>r. sr_id r = src_id s') (sources (working (db w))) = None
        \<and> resource (reddit w) (if is_comment s' then Comment else Submission) (base36 s') = Inr t"
  then have fr: "src_author s' = None" "src_submission s' = None" "src_is_new s'"
    using Source_fresh[of g url s'] by simp_all
  from h fr show "Source_load s' w =
        (Inr (),
         s'\<lparr>src_submission :=
               Some (Handle (if is_comment s' then Comment else Submission) (base36 s') (Some t)),
            src_author := Some (case th_author t of Some a \<Rightarrow> lower a | None \<Rightarrow> ''[deleted]''),
            src_title := Some (case th_title t of Some x \<Rightarrow> x | None \<Rightarrow> ''[comment]'')\<rparr>,
         request (Fetch (if is_comment s' then Comment else Submission) (base36 s'))
           (execute (SELECT Sources) w))"
    by (intro Source_load_fetch) simp_all
  from fr show "src_is_new s'" by simp
next
  assume h: "Source g url = Inr s'
        \<and> resource (reddit w) (if is_comment s' then Comment else Submission) (base36 s') = Inl e
        \<and> is_PRAWException e"
  then have fr: "src_author s' = None" "src_submission s' = None"
    using Source_fresh[of g url s'] by simp_all
  from h fr show "fst (submission s' w) = Inl (SubmissionNotFound (src_id s'))"
    by (intro submission_not_found(1)[of s' w e]) simp_all
  assume "find (\<lambda>r. sr_id r = src_id s') (sources (working (db w))) = None"
  with h fr show "fst (Source_load s' w) = Inl (SubmissionNotFound (src_id s'))"
    by (intro Source_load_not_found[of s' w e]) simp_all
qed

lemma Source_submission0: "Source globals0 (sub_url submission0) = Inr fresh0"
  by (simp add: Source_def globals0_def submission0_def lower_def lower_char_def url_path_def
      parse_path_def PATH_REGEX_def comment_group_def segment_def ident_def not_slash_def
      alnum_def fresh0_def source0_def)

theorem Source_load_spec_witness:
  "find (\<lambda>r. sr_id r = src_id fresh0) (sources (working (db world_seen))) = Some row0
   \<and> Source_load fresh0 world_seen = (Inr (), source0\<lparr>src_is_new := False\<rparr>, execute (SELECT Sources) world_seen)
   \<and> reddit (execute (SELECT Sources) world_seen) = reddit world_seen
   \<and> Source globals0 (sub_url submission0) = Inr fresh0
   \<and> find (\<lambda>r. sr_id r = src_id fresh0) (sources (working (db world0))) = None
   \<and> resource (reddit world0) Submission ''abc123'' = Inr thing0
   \<and> Source_load fresh0 world0 =
       (Inr (), source0\<lparr>src_submission := Some (Handle Submission ''abc123'' (Some thing0))\<rparr>,
        request (Fetch Submission ''abc123'') (execute (SELECT Sources) world0))
   \<and> src_is_new fresh0
   \<and> resource (reddit (world0\<lparr>reddit := reddit_gone\<rparr>)) Submission ''abc123'' = Inl PRAWException
   \<and> is_PRAWException PRAWException
   \<and> fst (submission fresh0 (world0\<lparr>reddit := reddit_gone\<rparr>)) = Inl (SubmissionNotFound ''t3_abc123'')
   \<and> fst (Source_load fresh0 (world0\<lparr>reddit := reddit_gone\<rparr>)) = Inl (SubmissionNotFound ''t3_abc123'')"
proof -
  let ?wg = "world0\<lparr>reddit := reddit_gone\<rparr>"
  have ic: "\<not> is_comment fresh0" and b: "base36 fresh0 = ''abc123''" and i: "src_id fresh0 = ''t3_abc123''"
    by (simp_all add: is_comment_def base36_def fresh0_def source0_def)
  have f1: "find (\<lambda>r. sr_id r = src_id fresh0) (sources (working (db world_seen))) = Some row0"
    by (simp add: i world_seen_def world0_def tables0_def row0_def)
  have f2: "find (\<lambda>r. sr_id r = src_id fresh0) (sources (working (db world0))) = None"
    and f3: "find (\<lambda>r. sr_id r = src_id fresh0) (sources (working (db ?wg))) = None"
    by (simp_all add: world0_def tables0_def)
  have r2: "resource (reddit world0) Submission ''abc123'' = Inr thing0"
    by (simp add: world0_def reddit0_def)
  have r3: "resource (reddit ?wg) Submission ''abc123'' = Inl PRAWException"
    by (simp add: reddit_gone_def)
  have e1: "fresh0\<lparr>src_id := sr_id row0, src_reply := sr_reply row0, src_subreddit := sr_subreddit row0,
           src_author := sr_author row0, src_title := sr_title row0, src_skip := sr_skip row0,
           src_is_new := False\<rparr> = source0\<lparr>src_is_new := False\<rparr>"
    by (simp add: fresh0_def source0_def row0_def)
  have e2: "fresh0\<lparr>src_submission := Some (Handle Submission ''abc123'' (Some thing0)),
            src_author := Some (case th_author thing0 of Some a \<Rightarrow> lower a | None \<Rightarrow> ''[deleted]''),
            src_title := Some (case th_title thing0 of Some x \<Rightarrow> x | None \<Rightarrow> ''[comment]'')\<rparr>
          = source0\<lparr>src_submission := Some (Handle Submission ''abc123'' (Some thing0))\<rparr>"
    by (simp add: fresh0_def source0_def thing0_def lower_def lower_char_def)
  note A = Source_load_spec[of fresh0 world_seen row0 globals0 "sub_url submission0" fresh0 thing0 PRAWException]
  note B = Source_load_spec[of fresh0 world0 row0 globals0 "sub_url submission0" fresh0 thing0 PRAWException]
  note C = Source_load_spec[of fresh0 ?wg row0 globals0 "sub_url submission0" fresh0 thing0 PRAWException]
  from A f1 have a: "Source_load fresh0 world_seen = (Inr (), source0\<lparr>src_is_new := False\<rparr>, execute (SELECT Sources) world_seen)"
    by (simp only: e1 simp_thms)
  from B f2 r2 Source_submission0 ic b
  have bb: "Source_load fresh0 world0 =
       (Inr (), source0\<lparr>src_submission := Some (Handle Submission ''abc123'' (Some thing0))\<rparr>,
        request (Fetch Submission ''abc123'') (execute (SELECT Sources) world0))"
    by (simp add: e2)
  from C f3 r3 Source_submission0 ic b i
  have c: "fst (submission fresh0 ?wg) = Inl (SubmissionNotFound ''t3_abc123'')"
    "fst (Source_load fresh0 ?wg) = Inl (SubmissionNotFound ''t3_abc123'')"
    by simp_all
  have n: "src_is_new fresh0" by (simp add: fresh0_def source0_def)
  have x: "reddit (execute (SELECT Sources) world_seen) = reddit world_seen" by (simp add: execute_def)
  show ?thesis
    using f1 a x Source_submission0 f2 r2 bb n r3 c by simp
qed


section \<open>Gathering the links of a \<^verbatim>\<open>Source\<close>\<close>

lemma select_links_mset:
  "mset (select_links i rows) =
     image_mset (\<lambda>r. (lr_subreddit r, lr_title r, lr_permalink r))
       (filter_mset (\<lambda>r. lr_source r = i \<and> \<not> lr_skip r) (mset rows))"
  by (simp add: select_links_def)

lemma select_links_keys:
  "map (\<lambda>(subreddit, title, permalink). (subreddit, title)) (select_links i rows)
     = map (\<lambda>r. (lr_subreddit r, lr_title r))
         (sort_key (\<lambda>r. (lr_subreddit r, lr_title r))
            (filter (\<lambda>r. lr_source r = i \<and> \<not> lr_skip r) rows))"
  by (simp add: select_links_def comp_def)

lemma select_links_sorted:
  "sorted (map (\<lambda>(subreddit, title, permalink). (subreddit, title)) (select_links i rows))"
  unfolding select_links_keys by (rule sorted_sort_key)

lemma select_links_order:
  assumes "mset rows' = mset rows"
  shows "map (\<lambda>(subreddit, title, permalink). (subreddit, title)) (select_links i rows')
       = map (\<lambda>(subreddit, title, permalink). (subreddit, title)) (select_links i rows)"
proof -
  let ?k = "\<lambda>(subreddit :: string, title :: string, permalink :: string). (subreddit, title)"
  have "mset (select_links i rows') = mset (select_links i rows)"
    using assms by (simp add: select_links_mset)
  then have "mset (map ?k (select_links i rows')) = mset (map ?k (select_links i rows))"
    by simp
  then show ?thesis
    using select_links_sorted[of i rows'] select_links_sorted[of i rows]
    by (metis properties_for_sort sorted_sort_id)
qed

text \<open>
  Claim C6. On a new \<^verbatim>\<open>Notification\<close>, \<^verbatim>\<open>should_notify\<close> leaves in \<^verbatim>\<open>links\<close>
  exactly the stored links of the source that are not skipped, each once per row, as
  (subreddit, title, permalink); the list is ascending in (subreddit, title); its keys are
  the same for every order of the rows in the table; and the result is \<^verbatim>\<open>True\<close>
  exactly when the list is not empty.
\<close>

theorem should_notify_spec:
  "should_notify (Notification s) w = (b, n, w1) \<longrightarrow>
     mset (ntf_links n) =
       image_mset (\<lambda>r. (lr_subreddit r, lr_title r, lr_permalink r))
         (filter_mset (\<lambda>r. lr_source r = src_id s \<and> \<not> lr_skip r)
            (mset (links (working (db w)))))
     \<and> sorted (map (\<lambda>(subreddit, title, permalink). (subreddit, title)) (ntf_links n))
     \<and> (mset rows' = mset (links (working (db w))) \<longrightarrow>
          map (\<lambda>(subreddit, title, permalink). (subreddit, title)) (select_links (src_id s) rows')
            = map (\<lambda>(subreddit, title, permalink). (subreddit, title)) (ntf_links n))
     \<and> b = (ntf_links n \<noteq> [])"
proof
  assume a: "should_notify (Notification s) w = (b, n, w1)"
  then have n: "ntf_links n = select_links (src_id s) (links (working (db w)))"
    and b: "b = (ntf_links n \<noteq> [])"
    by (auto simp: should_notify_def Notification_def Let_def execute_def)
  show "mset (ntf_links n) =
       image_mset (\<lambda>r. (lr_subreddit r, lr_title r, lr_permalink r))
         (filter_mset (\<lambda>r. lr_source r = src_id s \<and> \<not> lr_skip r)
            (mset (links (working (db w)))))
     \<and> sorted (map (\<lambda>(subreddit, title, permalink). (subreddit, title)) (ntf_links n))
     \<and> (mset rows' = mset (links (working (db w))) \<longrightarrow>
          map (\<lambda>(subreddit, title, permalink). (subreddit, title)) (select_links (src_id s) rows')
            = map (\<lambda>(subreddit, title, permalink). (subreddit, title)) (ntf_links n))
     \<and> b = (ntf_links n \<noteq> [])"
    unfolding n using b select_links_order[of rows' "links (working (db w))" "src_id s"]
    by (simp add: select_links_mset select_links_sorted n)
qed

lemma select_links_rows:
  "select_links ''t3_abc123'' link_rows =
     [(''a'', ''y'', ''/r/a/comments/lnk002/y/''), (''b'', ''x'', ''/r/b/comments/lnk001/x/'')]"
  by (simp add: select_links_def link_rows_def sort_key_def less_eq_prod_def)


theorem should_notify_spec_witness:
  "should_notify (Notification source0) world_links =
     (True,
      (Notification source0)\<lparr>ntf_links :=
         [(''a'', ''y'', ''/r/a/comments/lnk002/y/''), (''b'', ''x'', ''/r/b/comments/lnk001/x/'')]\<rparr>,
      execute (SELECT Links) world_links)
   \<and> mset (rev link_rows) = mset (links (working (db world_links)))
   \<and> map (\<lambda>(subreddit, title, permalink). (subreddit, title))
        (select_links (src_id source0) (rev link_rows)) = [(''a'', ''y''), (''b'', ''x'')]
   \<and> sorted [(''a'', ''y''), (''b'', ''x'')]"
proof -
  let ?n = "(Notification source0)\<lparr>ntf_links :=
         [(''a'', ''y'', ''/r/a/comments/lnk002/y/''), (''b'', ''x'', ''/r/b/comments/lnk001/x/'')]\<rparr>"
  have l: "links (working (db world_links)) = link_rows"
    by (simp add: world_links_def world0_def)
  have i: "src_id source0 = ''t3_abc123''"
    by (simp add: source0_def)
  have h: "should_notify (Notification source0) world_links = (True, ?n, execute (SELECT Links) world_links)"
    by (simp add: should_notify_def Let_def Notification_def i l select_links_rows execute_def)
  have m: "mset (rev link_rows) = mset (links (working (db world_links)))"
    by (simp add: l)
  from should_notify_spec[of source0 world_links True ?n "execute (SELECT Links) world_links" "rev link_rows"] h m
  have a: "sorted (map (\<lambda>(subreddit, title, permalink). (subreddit, title)) (ntf_links ?n))"
    and b: "map (\<lambda>(subreddit, title, permalink). (subreddit, title)) (select_links (src_id source0) (rev link_rows))
            = map (\<lambda>(subreddit, title, permalink). (subreddit, title)) (ntf_links ?n)"
    by blast+
  from a have a': "sorted [(''a'', ''y''), (''b'', ''x'')]" by simp
  from b have b': "map (\<lambda>(subreddit, title, permalink). (subreddit, title))
        (select_links (src_id source0) (rev link_rows)) = [(''a'', ''y''), (''b'', ''x'')]" by simp
  show ?thesis using h m a' b' by blast
qed


section \<open>Rendering\<close>

lemma bullets_bound:
  "np g = Some f \<Longrightarrow>
     bullets g ls = Inr (map (\<lambda>(subreddit, title, permalink). bullet subreddit title (f permalink)) ls)"
  by (induction ls) (auto simp: call_np_def)

lemma bullets_unbound:
  "np g = None \<Longrightarrow> ls \<noteq> [] \<Longrightarrow> bullets g ls = Inl (NameError ''np'')"
  by (cases ls) (auto simp: call_np_def)

lemma bullets_Inr:
  "bullets g ls = Inr bs \<Longrightarrow>
     \<exists>urls. length urls = length ls
       \<and> bs = map2 (\<lambda>(subreddit, title, permalink) url. bullet subreddit title url) ls urls"
proof (induction ls arbitrary: bs)
  case Nil
  then show ?case by simp
next
  case (Cons x ls)
  obtain subreddit title permalink where x: "x = (subreddit, title, permalink)"
    by (cases x) auto
  from Cons.prems x obtain url bs' where u: "call_np g permalink = Inr url"
    and b: "bullets g ls = Inr bs'" and bs: "bs = bullet subreddit title url # bs'"
    by (auto split: sum.splits)
  from Cons.IH[OF b] obtain urls where "length urls = length ls"
    and "bs' = map2 (\<lambda>(subreddit, title, permalink) url. bullet subreddit title url) ls urls"
    by blast
  then have "length (url # urls) = length (x # ls)
     \<and> bs = map2 (\<lambda>(subreddit, title, permalink) url. bullet subreddit title url) (x # ls) (url # urls)"
    using bs x by simp
  then show ?case by blast
qed

lemma render_comment_unbound:
  "np g = None \<Longrightarrow> ntf_links n \<noteq> [] \<Longrightarrow> render_comment g n = Inl (NameError ''np'')"
  by (simp add: render_comment_def bullets_unbound)

lemma render_comment_bound:
  "np g = Some f \<Longrightarrow>
     render_comment g n =
       Inr (join (newline @ newline)
              ([preamble]
               @ map (\<lambda>(subreddit, title, permalink). bullet subreddit title (f permalink)) (ntf_links n)
               @ [footer]))"
  by (simp add: render_comment_def bullets_bound)

text \<open>
  Claim C4, as amended. \<^verbatim>\<open>_render_comment\<close> has no truncation: whenever it returns a
  body, whatever the number of links and the length of the titles, the body is the
  preamble, one bullet per link with the title of the link as it is, and the footer.
\<close>

theorem render_comment_verbatim:
  "render_comment g n = Inr body \<longrightarrow>
     (\<exists>urls. length urls = length (ntf_links n)
        \<and> body = join (newline @ newline)
                   ([preamble]
                    @ map2 (\<lambda>(subreddit, title, permalink) url. bullet subreddit title url)
                        (ntf_links n) urls
                    @ [footer]))"
proof
  assume "render_comment g n = Inr body"
  then obtain bs where b: "bullets g (ntf_links n) = Inr bs"
    and body: "body = join (newline @ newline) ([preamble] @ bs @ [footer])"
    by (auto simp: render_comment_def split: sum.splits)
  from bullets_Inr[OF b] body
  show "\<exists>urls. length urls = length (ntf_links n)
        \<and> body = join (newline @ newline)
                   ([preamble]
                    @ map2 (\<lambda>(subreddit, title, permalink) url. bullet subreddit title url)
                        (ntf_links n) urls
                    @ [footer])"
    by blast
qed

lemma length_join:
  "length (join sep xs) = sum_list (map length xs) + length sep * (length xs - 1)"
  by (induction sep xs rule: join.induct) auto

lemma np_globals_np: "np globals_np = Some no_participation"
  by (simp add: globals_np_def)

lemma render_many_links:
  "render_comment globals_np many_links =
     Inr (join (newline @ newline)
            ([preamble]
             @ replicate 41 (bullet ''a'' long_title ''https://np.reddit.com/r/a/comments/lnk001/t/'')
             @ [footer]))"
  by (simp add: render_comment_bound[OF np_globals_np] many_links_def no_participation_def)

lemma spec_render_many_links:
  "spec_render globals_np many_links =
     Inr (join (newline @ newline)
            ([preamble]
             @ replicate 41 (bullet ''a'' (replicate 137 (CHR ''t'') @ ''...'')
                 ''https://np.reddit.com/r/a/comments/lnk001/t/'')
             @ [footer]))"
  by (simp add: spec_render_def render_comment_bound[OF np_globals_np]
      many_links_def no_participation_def truncated_def long_title_def
      LINKS_BEFORE_TITLE_CUTOFF_def TITLE_LIMIT_def)

text \<open>
  Claim C4, as stated, fails: with 41 links, over the cutoff of 40, and titles of 138
  characters, over the limit of 137, the body has the titles in full and differs from
  the rendering with truncated titles. With \<^verbatim>\<open>np\<close> unbound, as in the module as it
  stands, no body is rendered at all.
\<close>

theorem render_comment_counterexample:
  "length (ntf_links many_links) = 41 \<and> length long_title = 138
   \<and> render_comment globals_np many_links =
       Inr (join (newline @ newline)
              ([preamble]
               @ replicate 41 (bullet ''a'' long_title ''https://np.reddit.com/r/a/comments/lnk001/t/'')
               @ [footer]))
   \<and> render_comment globals_np many_links \<noteq> spec_render globals_np many_links
   \<and> render_comment globals0 many_links = Inl (NameError ''np'')"
proof -
  have 1: "length (ntf_links many_links) = 41" "length long_title = 138"
    by (simp_all add: many_links_def long_title_def)
  have "length (join (newline @ newline)
            ([preamble]
             @ replicate 41 (bullet ''a'' long_title ''https://np.reddit.com/r/a/comments/lnk001/t/'')
             @ [footer]))
      \<noteq> length (join (newline @ newline)
            ([preamble]
             @ replicate 41 (bullet ''a'' (replicate 137 (CHR ''t'') @ ''...'')
                 ''https://np.reddit.com/r/a/comments/lnk001/t/'')
             @ [footer]))"
    by (simp add: length_join sum_list_replicate bullet_def long_title_def)
  then have 2: "render_comment globals_np many_links \<noteq> spec_render globals_np many_links"
    unfolding render_many_links spec_render_many_links by auto
  have 3: "render_comment globals0 many_links = Inl (NameError ''np'')"
    by (rule render_comment_unbound) (simp_all add: globals0_def many_links_def)
  show ?thesis using 1 2 3 render_many_links by simp
qed

theorem render_comment_verbatim_witness:
  "render_comment globals_np many_links =
       Inr (join (newline @ newline)
              ([preamble]
               @ replicate 41 (bullet ''a'' long_title ''https://np.reddit.com/r/a/comments/lnk001/t/'')
               @ [footer]))
   \<and> (\<exists>urls. length urls = length (ntf_links many_links)
        \<and> join (newline @ newline)
              ([preamble]
               @ replicate 41 (bullet ''a'' long_title ''https://np.reddit.com/r/a/comments/lnk001/t/'')
               @ [footer])
          = join (newline @ newline)
                   ([preamble]
                    @ map2 (\<lambda>(subreddit, title, permalink) url. bullet subreddit title url)
                        (ntf_links many_links) urls
                    @ [footer]))"
  using render_many_links
    render_comment_verbatim[of globals_np many_links "join (newline @ newline)
              ([preamble]
               @ replicate 41 (bullet ''a'' long_title ''https://np.reddit.com/r/a/comments/lnk001/t/'')
               @ [footer])"]
  by blast


section \<open>Posting the reply\<close>

lemma submission_effect:
  assumes "submission s w = (r, s1, w1)"
  shows "comments (reddit w1) = comments (reddit w) \<and> db w1 = db w \<and> src_id s1 = src_id s
         \<and> fresh_id (reddit w1) = fresh_id (reddit w)
         \<and> s1\<lparr>src_submission := x\<rparr> = s\<lparr>src_submission := x\<rparr>"
  using assms
  by (auto simp: submission_def fetch_def request_def Let_def split: option.splits sum.splits)

lemma reply_to_effect:
  assumes "reply_to h body w = (Inr nm, w1)"
  shows "\<exists>parent. comments (reddit w1) = comments (reddit w) @ [(nm, parent, body)]
         \<and> nm = ''t1_'' @ fresh_id (reddit w) (length (comments (reddit w)))
         \<and> db w1 = db w"
  using assms
  by (cases h) (auto simp: reply_to_def request_def Let_def split: option.splits)

lemma update_sources_fields:
  "list_ex (\<lambda>r. sr_id r = src_id s) rows \<Longrightarrow>
     list_ex (\<lambda>row. sr_id row = src_id s \<and> sr_reply row = src_reply s) (update_sources s rows)"
  by (induction rows) (auto simp: update_sources_def)

lemma Source_save_effect:
  assumes "Source_save s w = (Inr (), w1)"
  shows "reddit w1 = reddit w
         \<and> list_ex (\<lambda>row. sr_id row = src_id s \<and> sr_reply row = src_reply s)
              (sources (committed (db w1)))"
proof (cases "list_ex (\<lambda>r. sr_id r = src_id s) (sources (working (db w)))")
  case True
  with assms have w1: "w1 = commit (set_sources (update_sources s (sources (working (db w))))
                      (execute (UPDATE Sources) (execute (SELECT Sources) w)))"
    by (auto simp: Source_save_result split: if_splits)
  have "list_ex (\<lambda>row. sr_id row = src_id s \<and> sr_reply row = src_reply s)
          (update_sources s (sources (working (db w))))"
    using True by (rule update_sources_fields)
  then show ?thesis
    unfolding w1 by (simp add: db_commit_set_sources) (simp add: commit_def set_sources_def execute_def)
next
  case False
  with assms have w1: "w1 = commit (set_sources
                      (insert_sources s (clock w (ticks w)) (sources (working (db w))))
                      (execute (INSERT Sources) (execute (SELECT Sources) w)))"
    by (auto simp: Source_save_result split: if_splits)
  show ?thesis
    unfolding w1
    by (simp add: db_commit_set_sources insert_sources_def)
       (simp add: commit_def set_sources_def execute_def)
qed

lemma post_reply_first:
  assumes "\<not> TEST g" and "\<not> truthy (ntf_reply n)" and "post_reply g n w = (Inr b, n1, w1)"
  shows "\<exists>nm parent body.
           render_comment g n = Inr body
         \<and> nm = ''t1_'' @ fresh_id (reddit w) (length (comments (reddit w)))
         \<and> comments (reddit w1) = comments (reddit w) @ [(nm, parent, body)]
         \<and> ntf_reply n1 = Some nm
         \<and> src_reply (ntf_source n1) = Some nm
         \<and> src_id (ntf_source n1) = src_id (ntf_source n)
         \<and> list_ex (\<lambda>row. sr_id row = src_id (ntf_source n) \<and> sr_reply row = Some nm)
              (sources (committed (db w1)))"
proof -
  from assms obtain body where body: "render_comment g n = Inr body"
    by (cases "render_comment g n") (auto simp: post_reply_def)
  obtain r s1 wa where sub: "submission (ntf_source n) w = (r, s1, wa)"
    by (cases "submission (ntf_source n) w") auto
  with assms body obtain h where r: "r = Inr h"
    by (cases r) (auto simp: post_reply_def)
  obtain r2 wb where rep: "reply_to h body wa = (r2, wb)"
    by (cases "reply_to h body wa") auto
  with assms body sub r obtain nm where r2: "r2 = Inr nm"
    by (cases r2) (auto simp: post_reply_def)
  let ?s2 = "s1\<lparr>src_reply := Some nm\<rparr>"
  obtain r3 wc where sav: "Source_save ?s2 wb = (r3, wc)"
    by (cases "Source_save ?s2 wb") auto
  from assms body sub r rep r2 sav have r3: "r3 = Inr ()" and w1: "w1 = wc"
    and n1: "n1 = n\<lparr>ntf_source := ?s2, ntf_reply := Some nm\<rparr>"
    by (cases r3; auto simp: post_reply_def Let_def)+
  from submission_effect[OF sub] have a: "comments (reddit wa) = comments (reddit w)"
    "src_id s1 = src_id (ntf_source n)" "fresh_id (reddit wa) = fresh_id (reddit w)"
    by simp_all
  from reply_to_effect[OF rep[unfolded r2]] obtain parent where
    b: "comments (reddit wb) = comments (reddit wa) @ [(nm, parent, body)]"
      "nm = ''t1_'' @ fresh_id (reddit wa) (length (comments (reddit wa)))"
    by blast
  from Source_save_effect[OF sav[unfolded r3]] have c: "reddit wc = reddit wb"
    "list_ex (\<lambda>row. sr_id row = src_id ?s2 \<and> sr_reply row = src_reply ?s2)
              (sources (committed (db wc)))"
    by simp_all
  show ?thesis
    using body a b c by (simp add: w1 n1)
qed

lemma post_reply_again:
  assumes "\<not> TEST g" and "truthy (ntf_reply n)" and "post_reply g n w = (Inr b, n1, w1)"
  shows "\<exists>body.
           render_comment g n = Inr body
         \<and> n1 = n \<and> db w1 = db w
         \<and> comments (reddit w1) =
             map (\<lambda>(nm, parent, x).
                    if nm = ''t1_'' @ drop 3 (the (ntf_reply n)) then (nm, parent, body)
                    else (nm, parent, x))
               (comments (reddit w))
         \<and> length (comments (reddit w1)) = length (comments (reddit w))"
proof -
  from assms obtain body where body: "render_comment g n = Inr body"
    by (cases "render_comment g n") (auto simp: post_reply_def)
  obtain e wa where ed: "edit (drop 3 (the (ntf_reply n))) body w = (e, wa)"
    by (cases "edit (drop 3 (the (ntf_reply n))) body w") auto
  with assms body have e: "e = None" and w1: "w1 = wa" and n1: "n1 = n"
    by (cases e; auto simp: post_reply_def)+
  from ed e have "db wa = db w \<and> comments (reddit wa) =
             map (\<lambda>(nm, parent, x).
                    if nm = ''t1_'' @ drop 3 (the (ntf_reply n)) then (nm, parent, body)
                    else (nm, parent, x))
               (comments (reddit w))"
    by (auto simp: edit_def request_def Let_def split: option.splits)
  then show ?thesis using body w1 n1 by simp
qed


text \<open>
  Claim C3, as amended. Outside a dry run, a \<^verbatim>\<open>post_reply\<close> that returns on a
  notification without a reply id creates exactly one comment, named by the site, keeps
  that name on the notification and on its \<^verbatim>\<open>Source\<close>, and leaves a committed row of
  the \<^verbatim>\<open>Source\<close> with that reply. A \<^verbatim>\<open>post_reply\<close> that returns on a notification
  with a reply id changes nothing but the body of the comment of that id: the
  notification, its reply id and the store stay as they are and no comment is added.
\<close>

theorem post_reply_once:
  "(\<not> TEST g \<and> \<not> truthy (ntf_reply n) \<and> post_reply g n w = (Inr b, n1, w1) \<longrightarrow>
      (\<exists>nm parent body.
           render_comment g n = Inr body
         \<and> nm = ''t1_'' @ fresh_id (reddit w) (length (comments (reddit w)))
         \<and> comments (reddit w1) = comments (reddit w) @ [(nm, parent, body)]
         \<and> ntf_reply n1 = Some nm
         \<and> src_reply (ntf_source n1) = Some nm
         \<and> src_id (ntf_source n1) = src_id (ntf_source n)
         \<and> list_ex (\<lambda>row. sr_id row = src_id (ntf_source n) \<and> sr_reply row = Some nm)
              (sources (committed (db w1)))))
   \<and> (\<not> TEST g \<and> truthy (ntf_reply m) \<and> post_reply g m v = (Inr c, m1, v1) \<longrightarrow>
      (\<exists>body.
           render_comment g m = Inr body
         \<and> m1 = m \<and> db v1 = db v
         \<and> comments (reddit v1) =
             map (\<lambda>(nm, parent, x).
                    if nm = ''t1_'' @ drop 3 (the (ntf_reply m)) then (nm, parent, body)
                    else (nm, parent, x))
               (comments (reddit v))
         \<and> length (comments (reddit v1)) = length (comments (reddit v))))"
  using post_reply_first[of g n w b n1 w1] post_reply_again[of g m v c m1 v1]
  by blast

lemmas model_defs =
  process_def resolve_source_def process_link_def Source_def Source_load_def load_title_def
  submission_attrs_def submission_def fetch_def attrs_def Source_check_skip_def Source_save_def
  source_exists_def Link_def Link_load_def Link_check_skip_def Link_save_def link_exists_def
  queue_def skip_any_def any_new_def add_def
  update_sources_def insert_sources_def reply_taken_def set_sources_def
  update_links_def insert_links_def set_links_def
  execute_def commit_def rollback_def request_def
  log_debug_def log_info_def log_warn_def log_error_def log_error_str_def
  parse_path_def PATH_REGEX_def comment_group_def segment_def ident_def not_slash_def alnum_def
  lower_def lower_char_def truthy_def base36_def is_comment_def
  POST_TIME_def url_path_def
  Notification_def should_notify_def post_reply_def reply_to_def edit_def fullname_def
  call_np_def no_participation_def

lemmas scenario_defs =
  globals0_def globals_np_def globals_test_def thing0_def submission0_def reddit0_def
  tables0_def world0_def source0_def link0_def submission_other_def link_other_def totes0_def
  row0_def world_seen_def world_links_def two_links_def

text \<open>
  Claim C3, as stated, fails in a dry run: with \<^verbatim>\<open>TEST\<close> set, \<^verbatim>\<open>post_reply\<close> on a
  \<^verbatim>\<open>Source\<close> without a reply id returns \<^verbatim>\<open>True\<close>, and no comment exists, no reply id
  is kept and the row of the \<^verbatim>\<open>Source\<close> still has no reply.
\<close>

theorem post_reply_counterexample:
  "TEST globals_test
   \<and> ntf_reply (Notification source0) = None
   \<and> post_reply globals_test (Notification source0) world_links
       = (Inr True, Notification source0, world_links)
   \<and> comments (reddit world_links) = []
   \<and> sr_reply row0 = None
   \<and> sources (committed (db world_links)) = [row0]"
  by (simp add: post_reply_def render_comment_def scenario_defs Notification_def log_debug_def)


lemma first_post:
  shows "fst (post_reply globals_np two_links world_links) = Inr True"
    "ntf_reply (fst (snd (post_reply globals_np two_links world_links))) = Some ''t1_new''"
    "map (\<lambda>(nm, parent, x). (nm, parent))
         (comments (reddit (snd (snd (post_reply globals_np two_links world_links)))))
       = [(''t1_new'', ''t3_abc123'')]"
    "map (\<lambda>r. (sr_id r, sr_reply r))
         (sources (committed (db (snd (snd (post_reply globals_np two_links world_links))))))
       = [(''t3_abc123'', Some ''t1_new'')]"
  by (simp_all add: model_defs scenario_defs render_comment_def Let_def)


lemma second_post:
  "fst (post_reply globals_np
          ((fst (snd (post_reply globals_np two_links world_links)))
             \<lparr>ntf_links := ntf_links two_links @ [(''c'', ''v'', ''/r/c/comments/lnk004/v/'')]\<rparr>)
          (snd (snd (post_reply globals_np two_links world_links)))) = Inr True"
  by (simp add: model_defs scenario_defs render_comment_def Let_def)

theorem post_reply_once_witness:
  "\<not> TEST globals_np \<and> \<not> truthy (ntf_reply two_links)
   \<and> post_reply globals_np two_links world_links
       = (Inr True, fst (snd (post_reply globals_np two_links world_links)),
          snd (snd (post_reply globals_np two_links world_links)))
   \<and> ntf_reply (fst (snd (post_reply globals_np two_links world_links))) = Some ''t1_new''
   \<and> map (\<lambda>(nm, parent, x). (nm, parent))
         (comments (reddit (snd (snd (post_reply globals_np two_links world_links)))))
       = [(''t1_new'', ''t3_abc123'')]
   \<and> map (\<lambda>r. (sr_id r, sr_reply r))
         (sources (committed (db (snd (snd (post_reply globals_np two_links world_links))))))
       = [(''t3_abc123'', Some ''t1_new'')]
   \<and> (\<exists>body. render_comment globals_np two_links = Inr body
         \<and> comments (reddit (snd (snd (post_reply globals_np two_links world_links))))
             = [(''t1_new'', ''t3_abc123'', body)])
   \<and> fst (post_reply globals_np
          ((fst (snd (post_reply globals_np two_links world_links)))
             \<lparr>ntf_links := ntf_links two_links @ [(''c'', ''v'', ''/r/c/comments/lnk004/v/'')]\<rparr>)
          (snd (snd (post_reply globals_np two_links world_links)))) = Inr True
   \<and> ntf_reply (fst (snd (post_reply globals_np
          ((fst (snd (post_reply globals_np two_links world_links)))
             \<lparr>ntf_links := ntf_links two_links @ [(''c'', ''v'', ''/r/c/comments/lnk004/v/'')]\<rparr>)
          (snd (snd (post_reply globals_np two_links world_links)))))) = Some ''t1_new''
   \<and> length (comments (reddit (snd (snd (post_reply globals_np
          ((fst (snd (post_reply globals_np two_links world_links)))
             \<lparr>ntf_links := ntf_links two_links @ [(''c'', ''v'', ''/r/c/comments/lnk004/v/'')]\<rparr>)
          (snd (snd (post_reply globals_np two_links world_links)))))))) = 1"
proof -
  let ?r1 = "post_reply globals_np two_links world_links"
  let ?n1 = "fst (snd ?r1)" and ?w1 = "snd (snd ?r1)"
  let ?m = "?n1\<lparr>ntf_links := ntf_links two_links @ [(''c'', ''v'', ''/r/c/comments/lnk004/v/'')]\<rparr>"
  let ?r2 = "post_reply globals_np ?m ?w1"
  let ?n2 = "fst (snd ?r2)" and ?w2 = "snd (snd ?r2)"
  have t: "\<not> TEST globals_np" by (simp add: globals_np_def)
  have u: "\<not> truthy (ntf_reply two_links)"
    by (simp add: two_links_def Notification_def source0_def truthy_def)
  have h1: "?r1 = (Inr True, ?n1, ?w1)"
    using first_post(1) by (simp add: prod_eq_iff)
  have h2: "?r2 = (Inr True, ?n2, ?w2)"
    using second_post by (simp add: prod_eq_iff)
  have tr: "truthy (ntf_reply ?m)"
    using first_post(2) by (simp add: truthy_def)
  note T = post_reply_once[of globals_np two_links world_links True ?n1 ?w1 ?m ?w1 True ?n2 ?w2]
  from T t u h1 obtain nm parent body where
    a: "render_comment globals_np two_links = Inr body"
      "comments (reddit ?w1) = comments (reddit world_links) @ [(nm, parent, body)]"
    by blast
  from a(2) first_post(3) have a': "comments (reddit ?w1) = [(''t1_new'', ''t3_abc123'', body)]"
    by (simp add: world_links_def world0_def reddit0_def)
  from T t tr h2 have b: "?n2 = ?m" "length (comments (reddit ?w2)) = length (comments (reddit ?w1))"
    by blast+
  from b(1) first_post(2) have b1: "ntf_reply ?n2 = Some ''t1_new''" by simp
  from b(2) a' have b2: "length (comments (reddit ?w2)) = 1" by simp
  from a(1) a' have e: "\<exists>body. render_comment globals_np two_links = Inr body
         \<and> comments (reddit ?w1) = [(''t1_new'', ''t3_abc123'', body)]"
    by blast
  show ?thesis
    using t u h1 first_post(2) first_post(3) first_post(4) e second_post b1 b2 by blast
qed


section \<open>Candidates that are too new\<close>

text \<open>
  Claim C10. A candidate examined less than \<^verbatim>\<open>POST_TIME\<close> (120 seconds) after its
  creation leaves the loop body at once: the batch is the one it was, the clock has been
  read and a debug line written, and the store, the site with the requests made to it
  and the executed statements are what they were.
\<close>

theorem too_new_skipped:
  "clock w (ticks w) - sub_created_utc sub < POST_TIME \<longrightarrow>
     process g sub batch w =
       (Inr batch, log_debug g ''Skipping, too new'' (w\<lparr>ticks := Suc (ticks w)\<rparr>))
     \<and> db (snd (process g sub batch w)) = db w
     \<and> reddit (snd (process g sub batch w)) = reddit w
     \<and> executed (snd (process g sub batch w)) = executed w"
  by (simp add: process_def Let_def log_debug_def)

theorem too_new_skipped_witness:
  "clock world0 (ticks world0) - sub_created_utc submission_new = 50
   \<and> (50 :: real) < POST_TIME
   \<and> process globals0 submission_new [] world0 = (Inr [], world0\<lparr>ticks := 1\<rparr>)
   \<and> db (snd (process globals0 submission_new [] world0)) = db world0
   \<and> reddit (snd (process globals0 submission_new [] world0)) = reddit world0
   \<and> executed (snd (process globals0 submission_new [] world0)) = executed world0"
proof -
  have a: "clock world0 (ticks world0) - sub_created_utc submission_new = 50"
    by (simp add: world0_def submission_new_def submission0_def)
  have b: "(50 :: real) < POST_TIME" by (simp add: POST_TIME_def)
  have c: "log_debug globals0 ''Skipping, too new'' (world0\<lparr>ticks := Suc (ticks world0)\<rparr>)
             = world0\<lparr>ticks := 1\<rparr>"
    by (simp add: log_debug_def globals0_def world0_def)
  from too_new_skipped[of world0 submission_new globals0 "[]"] a b
  show ?thesis by (simp add: c)
qed

section \<open>The subreddit pairing\<close>

text \<open>
  Claim C1, as amended. \<^verbatim>\<open>skip_any\<close> is forced when the subreddit of the source is
  not \<^verbatim>\<open>relationship_advice\<close> and the subreddit of the link is not \<^verbatim>\<open>ra_automod\<close>,
  and then the submission does not queue the source. The submission queues the source
  exactly when the source or the link is new, neither is skipped, and the source is in
  \<^verbatim>\<open>relationship_advice\<close> or the link is in \<^verbatim>\<open>ra_automod\<close>.
\<close>

theorem queue_pairing:
  "(src_subreddit s \<noteq> ''relationship_advice'' \<and> lnk_subreddit l \<noteq> ''ra_automod'' \<longrightarrow>
      skip_any s l \<and> queue s l batch = batch)
   \<and> (queue s l batch =
        (if (src_is_new s \<or> lnk_is_new l) \<and> \<not> src_skip s \<and> \<not> lnk_skip l
            \<and> (src_subreddit s = ''relationship_advice'' \<or> lnk_subreddit l = ''ra_automod'')
         then add s batch else batch))"
  by (auto simp: queue_def skip_any_def any_new_def)

theorem queue_pairing_witness:
  "src_subreddit (source0\<lparr>src_subreddit := ''askreddit''\<rparr>) \<noteq> ''relationship_advice''
   \<and> lnk_subreddit link_other \<noteq> ''ra_automod''
   \<and> skip_any (source0\<lparr>src_subreddit := ''askreddit''\<rparr>) link_other
   \<and> queue (source0\<lparr>src_subreddit := ''askreddit''\<rparr>) link_other [] = []
   \<and> queue source0 link0 [] = [source0]"
proof -
  let ?s = "source0\<lparr>src_subreddit := ''askreddit''\<rparr>"
  have a: "src_subreddit ?s \<noteq> ''relationship_advice''" by simp
  have b: "lnk_subreddit link_other \<noteq> ''ra_automod''"
    by (simp add: link_other_def Link_def submission_other_def submission0_def lower_def lower_char_def)
  have c: "(src_is_new source0 \<or> lnk_is_new link0) \<and> \<not> src_skip source0 \<and> \<not> lnk_skip link0
            \<and> (src_subreddit source0 = ''relationship_advice'' \<or> lnk_subreddit link0 = ''ra_automod'')"
    by (simp add: source0_def link0_def Link_def submission0_def)
  from queue_pairing[of ?s link_other "[]"] a b
  have d: "skip_any ?s link_other" "queue ?s link_other [] = []" by blast+
  from queue_pairing[of source0 link0 "[]"] c
  have e: "queue source0 link0 [] = [source0]" by (simp add: add_def)
  show ?thesis using a b d e by blast
qed

text \<open>
  Claim C1, as stated, fails: a link from \<^verbatim>\<open>askreddit\<close>, which is not
  \<^verbatim>\<open>ra_automod\<close>, to a new source in \<^verbatim>\<open>relationship_advice\<close> does not force
  \<^verbatim>\<open>skip_any\<close>, and the loop body queues the source; a source outside
  \<^verbatim>\<open>relationship_advice\<close> linked from \<^verbatim>\<open>ra_automod\<close> is queued as well.
\<close>

theorem queue_counterexample:
  "lnk_subreddit link_other = ''askreddit''
   \<and> lnk_subreddit link_other \<noteq> ''ra_automod''
   \<and> \<not> skip_any source0 link_other
   \<and> queue source0 link_other [] = [source0]
   \<and> fst (process globals0 submission_other [] world0)
       = Inr [source0\<lparr>src_submission := Some (Handle Submission ''abc123'' (Some thing0))\<rparr>]
   \<and> src_subreddit (source0\<lparr>src_subreddit := ''askreddit''\<rparr>) \<noteq> ''relationship_advice''
   \<and> lnk_subreddit link0 = ''ra_automod''
   \<and> queue (source0\<lparr>src_subreddit := ''askreddit''\<rparr>) link0 []
       = [source0\<lparr>src_subreddit := ''askreddit''\<rparr>]"
proof -
  have a: "lnk_subreddit link_other = ''askreddit''"
    by (simp add: link_other_def Link_def submission_other_def submission0_def lower_def lower_char_def)
  have b: "\<not> skip_any source0 link_other" "queue source0 link_other [] = [source0]"
    by (simp_all add: queue_def skip_any_def any_new_def add_def source0_def link_other_def Link_def
        submission_other_def submission0_def)
  have c: "fst (process globals0 submission_other [] world0)
       = Inr [source0\<lparr>src_submission := Some (Handle Submission ''abc123'' (Some thing0))\<rparr>]"
    by (simp add: model_defs scenario_defs Let_def)
  have d: "lnk_subreddit link0 = ''ra_automod''"
    by (simp add: link0_def Link_def submission0_def lower_def lower_char_def)
  have e: "queue (source0\<lparr>src_subreddit := ''askreddit''\<rparr>) link0 []
       = [source0\<lparr>src_subreddit := ''askreddit''\<rparr>]"
    by (simp add: queue_def skip_any_def any_new_def add_def d) (simp add: source0_def link0_def Link_def submission0_def)
  show ?thesis using a b c d e by simp
qed


section \<open>Failures during a cycle\<close>

lemmas run_defs = run_def cycle_def snitch_def world_gone_def world_unseen_def reddit_gone_def
  submission1_def link_row0_def render_comment_def select_links_def sort_key_def less_eq_prod_def

text \<open>
  What the handlers of the loop do: a recoverable exception in the first \<^verbatim>\<open>try\<close>
  block is logged, the transaction rolled back and the loop goes on with the batch it
  had; any other exception leaves the loop.
\<close>

lemma process_source_failure:
  assumes "\<not> clock w (ticks w) - sub_created_utc sub < POST_TIME"
    and "resolve_source g sub (w\<lparr>ticks := Suc (ticks w)\<rparr>) = (Inl e, w1)"
  shows "process g sub batch w =
           (if RECOVERABLE_EXC e
            then (Inr batch,
                  log_debug g (''Something wrong with source: '' @ sub_name sub)
                    (rollback ((if DEBUG g then log_error e else log_error_str e) w1)))
            else (Inl e, w1))"
  using assms by (simp add: process_def Let_def)

lemma process_check_skip_failure:
  assumes "\<not> clock w (ticks w) - sub_created_utc sub < POST_TIME"
    and "resolve_source g sub (w\<lparr>ticks := Suc (ticks w)\<rparr>) = (Inr s1, w1)"
    and "Source_check_skip s1 (log_debug g (''Got source: '' @ sub_name sub) w1) = (Inl e, s2, w2)"
  shows "process g sub batch w = (Inl e, w2)"
  using assms by (simp add: process_def Let_def)

lemma process_all_failure:
  "process g sub batch w = (Inl e, w1) \<Longrightarrow> process_all g (sub # subs) batch w = (Inl e, w1)"
  by simp

lemma gone_process:
  "fst (process globals0 submission0 [] world_gone) = Inl (SubmissionNotFound ''t3_abc123'')"
  by (simp add: model_defs scenario_defs run_defs Let_def)

lemma gone_feed: "feed (reddit world_gone) = Inr [submission0, submission1]"
  by (simp add: world_gone_def reddit_gone_def)

lemma gone_run:
  "fst (run globals0 totes0 world_gone) = Some (SubmissionNotFound ''t3_abc123'')"
  by (simp add: model_defs scenario_defs run_defs Let_def)

lemma gone_links:
  "map lr_id (links (working (db (snd (run globals0 totes0 world_gone))))) = [''t3_lnk001'']"
  by (simp add: model_defs scenario_defs run_defs Let_def)

lemma gone_sources:
  "map sr_id (sources (working (db (snd (run globals0 totes0 world_gone))))) = [''t3_abc123'']"
  by (simp add: model_defs scenario_defs run_defs Let_def)

lemma gone_cycle: "fst (cycle globals0 totes0 world_gone) = None"
  by (simp add: model_defs scenario_defs run_defs Let_def)

lemma gone_log:
  "log (snd (cycle globals0 totes0 world_gone))
     = [Info ''Running.'', Error_trace (SubmissionNotFound ''t3_abc123'')]"
  by (simp add: model_defs scenario_defs run_defs Let_def)

lemma unseen_run: "fst (run globals_np totes0 world_unseen) = None"
  by (simp add: model_defs scenario_defs run_defs Let_def)

lemma unseen_links:
  "map lr_id (links (working (db (snd (run globals_np totes0 world_unseen))))) = [''t3_lnk002'']"
  by (simp add: model_defs scenario_defs run_defs Let_def)

lemma unseen_log:
  "log (snd (run globals_np totes0 world_unseen))
     = [Info ''Running.'', Error_str (SubmissionNotFound ''t3_abc123''), Info ''Done.'']"
  by (simp add: model_defs scenario_defs run_defs Let_def)

lemma unseen_cycle: "fst (cycle globals0 totes0 world_unseen) = Some (NameError ''np'')"
  by (simp add: model_defs scenario_defs run_defs Let_def)

text \<open>
  Claim C2, on the code. The store knows the thread \<^verbatim>\<open>abc123\<close>, the thread has been
  deleted, and the feed lists the link to it and then a second link. \<^verbatim>\<open>load\<close> finds
  the row and fetches nothing, so the first fetch is the one of \<^verbatim>\<open>check_skip\<close>,
  outside the \<^verbatim>\<open>try\<close> blocks: \<^verbatim>\<open>SubmissionNotFound\<close>, a recoverable exception,
  leaves \<^verbatim>\<open>run\<close>. The second candidate is not processed (no row for it is written)
  and nothing is dispatched; the main loop logs the exception and goes to sleep. On a
  store that does not know the thread the same failure happens inside the \<^verbatim>\<open>try\<close>
  block of \<^verbatim>\<open>load\<close>: it is logged and the second candidate is processed. There, with
  \<^verbatim>\<open>np\<close> unbound as in the module as it stands, the notification for the second
  candidate raises \<^verbatim>\<open>NameError\<close>, which is not recoverable and ends the process.
\<close>

theorem deleted_thread_aborts_cycle:
  "fst (process globals0 submission0 [] world_gone) = Inl (SubmissionNotFound ''t3_abc123'')
   \<and> RECOVERABLE_EXC (SubmissionNotFound ''t3_abc123'')
   \<and> feed (reddit world_gone) = Inr [submission0, submission1]
   \<and> fst (run globals0 totes0 world_gone) = Some (SubmissionNotFound ''t3_abc123'')
   \<and> map lr_id (links (working (db (snd (run globals0 totes0 world_gone))))) = [''t3_lnk001'']
   \<and> map sr_id (sources (working (db (snd (run globals0 totes0 world_gone))))) = [''t3_abc123'']
   \<and> fst (cycle globals0 totes0 world_gone) = None
   \<and> log (snd (cycle globals0 totes0 world_gone))
       = [Info ''Running.'', Error_trace (SubmissionNotFound ''t3_abc123'')]
   \<and> fst (run globals_np totes0 world_unseen) = None
   \<and> map lr_id (links (working (db (snd (run globals_np totes0 world_unseen))))) = [''t3_lnk002'']
   \<and> log (snd (run globals_np totes0 world_unseen))
       = [Info ''Running.'', Error_str (SubmissionNotFound ''t3_abc123''), Info ''Done.'']
   \<and> fst (cycle globals0 totes0 world_unseen) = Some (NameError ''np'')
   \<and> \<not> RECOVERABLE_EXC (NameError ''np'')"
  by (simp only: gone_process gone_feed gone_run gone_links gone_sources gone_cycle gone_log
      unseen_run unseen_links unseen_log unseen_cycle RECOVERABLE_EXC.simps simp_thms)

end
